theory Spec2Isabelle
  imports Main
begin

section \<open>Data model: the tables of schema.sql\<close>

text \<open>
  Identifiers of type UUID and the SERIAL keys are natural numbers. Monetary columns are
  \<open>DECIMAL(10,2)\<close>; they are held in cents as integers (5.00 EUR is 500). Timestamps are
  natural numbers (milliseconds). Every table is the list of its rows in insertion order.
  Columns that are generated by the database and read by no statement of the modelled routes
  (row ids and timestamps of the append-only tables, free-text descriptions, titles) are left out.
  A request is taken as the inbound layer hands it over: the survey id is a value of INTEGER and
  every text can be stored in a TEXT column; the columns with a narrower type (INET,
  VARCHAR(255), DECIMAL(10,2)) reject what does not fit, as written out in the routes.
\<close>

type_synonym uuid = nat
type_synonym money = int
type_synonym timestamp = nat

datatype transaction_type = survey_reward | referral_bonus | withdrawal_request | withdrawal_completed

datatype transaction_status = pending | completed | failed | cancelled

datatype withdrawal_status = wr_pending | wr_processing | wr_completed | wr_failed

record user_row =
  u_id :: uuid
  email :: string
  password_hash :: "string option"
  balance :: money
  referral_code :: string
  referred_by :: "string option"
  total_referrals :: int
  ip_address :: "string option"
  user_agent :: "string option"
  email_verified :: bool
  verification_token :: "string option"
  created_at :: timestamp
  updated_at :: timestamp
  last_login :: "timestamp option"

record survey_row =
  s_id :: nat
  survey_key :: string
  reward_amount :: money
  is_active :: bool

record question_row =
  q_id :: nat
  q_survey_id :: nat
  question_key :: string

record response_row =
  r_user_id :: uuid
  r_survey_id :: nat
  r_question_id :: nat
  answer_text :: "string option"
  answer_options :: "string list option"

record completed_row =
  c_user_id :: uuid
  c_survey_id :: nat
  reward_paid :: bool

record transaction_row =
  t_user_id :: uuid
  t_type :: transaction_type
  t_amount :: money
  reference_id :: "string option"
  t_status :: transaction_status
  t_paypal_email :: "string option"

record referral_row =
  referrer_id :: uuid
  referred_user_id :: uuid

record withdrawal_row =
  w_user_id :: uuid
  w_amount :: money
  w_paypal_email :: string
  w_status :: withdrawal_status

datatype answer = Scalar string | Options "string list"

datatype log_metadata =
    SurveyMeta nat "(string \<times> answer) list"
  | WithdrawalMeta money "string option"

record activity_row =
  a_user_id :: uuid
  activity_type :: string
  a_ip_address :: "string option"
  a_user_agent :: "string option"
  metadata :: log_metadata

text \<open>
  The two rows of \<open>system_config\<close> that \<open>check_referral_bonus\<close> reads, after their casts
  (\<open>value::INTEGER\<close>, \<open>value::DECIMAL\<close>); \<open>None\<close> is a missing row, which SQL reads as NULL.
\<close>

record system_config =
  referral_bonus_threshold :: "int option"
  referral_bonus_amount :: "money option"

record db =
  users :: "user_row list"
  surveys :: "survey_row list"
  survey_questions :: "question_row list"
  user_survey_responses :: "response_row list"
  user_completed_surveys :: "completed_row list"
  transactions :: "transaction_row list"
  referrals :: "referral_row list"
  withdrawal_requests :: "withdrawal_row list"
  activity_logs :: "activity_row list"
  config :: system_config

text \<open>
  The outcomes of a route. A thrown \<open>Error\<close> or a statement rejected by the database is
  caught by the route's \<open>catch\<close>, which issues ROLLBACK and answers 400: the model returns the
  error together with the database as it was before BEGIN. A statement is rejected by a
  constraint of the schema or by the type of a column: a text that is no network address for an
  INET column, a text longer than its VARCHAR column, a sum outside DECIMAL(10,2).
\<close>

datatype db_constraint =
    users_pkey
  | users_referral_code_key
  | responses_user_survey_question_key
  | completed_user_survey_key
  | withdrawal_paypal_email_not_null
  | transactions_amount_not_null
  | transactions_user_id_fkey
  | inet_input_syntax
  | value_too_long
  | numeric_field_overflow

datatype error =
    AlreadyCompleted
  | UserNotFound
  | InsufficientBalance
  | BelowMinimum
  | StorageFailure db_constraint

section \<open>POST /api/withdrawals (server.js)\<close>

text \<open>
  The columns \<open>ip_address\<close> are of type INET. Which texts that type accepts is decided by the
  database, not by this repository: every route takes the acceptance test as its first
  argument \<open>inet_in\<close>, and nothing is assumed about it.

  The body carries \<open>userId\<close>, \<open>amount\<close> and \<open>paypalEmail\<close>; \<open>paypalEmail\<close> may be
  absent, and then the NOT NULL column of \<open>withdrawal_requests\<close> rejects the insert; that
  column is a VARCHAR(255). The origin \<open>userIp\<close> is first used by the insert into
  \<open>activity_logs\<close>, after the two other inserts. The literal 5 of the source is 500 cents.
  The amount that reaches the inserts is within the balance, a value of a DECIMAL(10,2) column.
\<close>

definition withdrawals_route ::
  "(string \<Rightarrow> bool) \<Rightarrow> db \<Rightarrow> string \<Rightarrow> uuid \<Rightarrow> money \<Rightarrow> string option \<Rightarrow> (error + unit) \<times> db" where
  "withdrawals_route inet_in d userIp userId amount paypalEmail =
     (case find (\<lambda>u. u_id u = userId) (users d) of
        None \<Rightarrow> (Inl UserNotFound, d)
      | Some row \<Rightarrow>
          (let currentBalance = balance row in
           if currentBalance < amount then (Inl InsufficientBalance, d)
           else if amount < 500 then (Inl BelowMinimum, d)
           else (case paypalEmail of
                   None \<Rightarrow> (Inl (StorageFailure withdrawal_paypal_email_not_null), d)
                 | Some p \<Rightarrow>
                     if 255 < length p then (Inl (StorageFailure value_too_long), d)
                     else if \<not> inet_in userIp then (Inl (StorageFailure inet_input_syntax), d)
                     else
                     (Inr (),
                      d\<lparr>withdrawal_requests := withdrawal_requests d @
                           [\<lparr>w_user_id = userId, w_amount = amount, w_paypal_email = p,
                             w_status = wr_pending\<rparr>],
                        transactions := transactions d @
                           [\<lparr>t_user_id = userId, t_type = withdrawal_request, t_amount = amount,
                             reference_id = None, t_status = pending,
                             t_paypal_email = Some p\<rparr>],
                        activity_logs := activity_logs d @
                           [\<lparr>a_user_id = userId, activity_type = ''withdrawal_requested'',
                             a_ip_address = Some userIp, a_user_agent = None,
                             metadata = WithdrawalMeta amount (Some p)\<rparr>]\<rparr>))))"

section \<open>Balance computations\<close>

text \<open>
  SQL's \<open>SUM\<close> over no rows is NULL, arithmetic with NULL is NULL, and \<open>COALESCE\<close> replaces
  NULL by its second argument.
\<close>

definition sql_sum :: "money list \<Rightarrow> money option" where
  "sql_sum xs = (if xs = [] then None else Some (sum_list xs))"


definition coalesce :: "'a option \<Rightarrow> 'a \<Rightarrow> 'a" where
  "coalesce v dflt = (case v of None \<Rightarrow> dflt | Some x \<Rightarrow> x)"

text \<open>
  The CASE expression shared by the submit route and by \<open>get_user_balance\<close> of schema.sql.
  Its ELSE branch is unreachable: the CHECK constraint of \<open>transaction_type\<close> admits the
  four kinds only.
\<close>

fun balance_case :: "transaction_row \<Rightarrow> money" where
  "balance_case t =
     (if t_type t = survey_reward \<or> t_type t = referral_bonus then t_amount t
      else if t_type t = withdrawal_request \<or> t_type t = withdrawal_completed then - t_amount t
      else 0)"

text \<open>The subquery of \<open>UPDATE users SET balance = (...)\<close> in the submit route (server.js).\<close>

definition submit_balance_query :: "transaction_row list \<Rightarrow> uuid \<Rightarrow> money" where
  "submit_balance_query txs userId =
     coalesce (sql_sum (map balance_case
        (filter (\<lambda>t. t_user_id t = userId \<and> t_status t = completed) txs))) 0"

text \<open>\<open>get_user_balance\<close> as schema.sql defines it: no condition on the status.\<close>

definition get_user_balance :: "transaction_row list \<Rightarrow> uuid \<Rightarrow> money" where
  "get_user_balance txs user_uuid =
     coalesce (sql_sum (map balance_case (filter (\<lambda>t. t_user_id t = user_uuid) txs))) 0"


text \<open>
  The balance as the specification words it (section 4.2), for comparison with the code:
  credits count positively and withdrawal debits negatively, pending entries are counted,
  failed and cancelled entries are not.
\<close>

definition spec_balance :: "transaction_row list \<Rightarrow> uuid \<Rightarrow> money" where
  "spec_balance txs account =
     sum_list (map balance_case
       (filter (\<lambda>t. t_user_id t = account \<and> (t_status t = pending \<or> t_status t = completed)) txs))"

section \<open>POST /api/surveys/:id/submit (server.js)\<close>

text \<open>
  What a request reads from outside the database: the two reads of \<open>Date.now()\<close>, the
  first (\<open>clock\<close>) for the synthesized contact key and the second (\<open>clock_code\<close>) for the
  referral code, the database's \<open>NOW()\<close>, and the value \<open>uuid_generate_v4()\<close> would give
  a new users row.
\<close>

record env =
  clock :: nat
  clock_code :: nat
  db_now :: timestamp
  new_uuid :: uuid

definition digit_char :: "nat \<Rightarrow> char" where
  "digit_char k = ''0123456789'' ! k"

fun toString :: "nat \<Rightarrow> string" where
  "toString n = (if n < 10 then [digit_char n] else toString (n div 10) @ [digit_char (n mod 10)])"

declare toString.simps [simp del]


definition slice_last :: "nat \<Rightarrow> string \<Rightarrow> string" where
  "slice_last k s = drop (length s - k) s"

definition remove_dots :: "string \<Rightarrow> string" where
  "remove_dots s = filter (\<lambda>c. c \<noteq> CHR ''.'') s"

text \<open>\<open>userEmail || `temp_${Date.now()}_${userIp.replace(/\./g, '')}@temp.com`\<close>;
  an absent and an empty \<open>userEmail\<close> are both falsy.\<close>

definition tempEmail :: "string option \<Rightarrow> nat \<Rightarrow> string \<Rightarrow> string" where
  "tempEmail userEmail now userIp =
     (let synthesized = ''temp_'' @ toString now @ ''_'' @ remove_dots userIp @ ''@temp.com''
      in case userEmail of
           None \<Rightarrow> synthesized
         | Some e \<Rightarrow> if e = [] then synthesized else e)"

definition referralCode :: "nat \<Rightarrow> string" where
  "referralCode now = ''REF'' @ slice_last 6 (toString now)"

text \<open>
  \<open>INSERT INTO users ... ON CONFLICT (email) DO UPDATE SET ip_address, user_agent, updated_at
  RETURNING id\<close>. The origin is a parameter of type INET and the contact key a value for a
  VARCHAR(255) column: a text that does not fit is rejected before any row is touched. With a
  row of that email present the row is updated and no insert is attempted; otherwise the insert
  is subject to the UNIQUE constraint of \<open>referral_code\<close> and to the primary key. The
  referral code (REF and at most six digits) always fits its VARCHAR(20) column.
\<close>

definition upsert_user ::
  "(string \<Rightarrow> bool) \<Rightarrow> db \<Rightarrow> env \<Rightarrow> string \<Rightarrow> string \<Rightarrow> string \<Rightarrow> string \<Rightarrow>
   error + (uuid \<times> db)" where
  "upsert_user inet_in d e em ip ua rc =
     (if \<not> inet_in ip then Inl (StorageFailure inet_input_syntax)
      else if 255 < length em then Inl (StorageFailure value_too_long)
      else
      case find (\<lambda>u. email u = em) (users d) of
        Some row \<Rightarrow>
          Inr (u_id row,
               d\<lparr>users := map (\<lambda>u. if email u = em
                                     then u\<lparr>ip_address := Some ip, user_agent := Some ua,
                                            updated_at := db_now e\<rparr>
                                     else u) (users d)\<rparr>)
      | None \<Rightarrow>
          if list_ex (\<lambda>u. referral_code u = rc) (users d)
          then Inl (StorageFailure users_referral_code_key)
          else if list_ex (\<lambda>u. u_id u = new_uuid e) (users d)
          then Inl (StorageFailure users_pkey)
          else Inr (new_uuid e,
                    d\<lparr>users := users d @
                       [\<lparr>u_id = new_uuid e, email = em, password_hash = None, balance = 0,
                         referral_code = rc, referred_by = None, total_referrals = 0,
                         ip_address = Some ip, user_agent = Some ua, email_verified = False,
                         verification_token = None, created_at = db_now e,
                         updated_at = db_now e, last_login = None\<rparr>]\<rparr>))"

text \<open>
  The loop over \<open>Object.entries(responses)\<close>: the table of responses and
  \<open>savedResponses\<close> are threaded through. An entry whose key names no question of the
  survey is skipped.
\<close>

fun save_responses ::
  "uuid \<Rightarrow> nat \<Rightarrow> question_row list \<Rightarrow> (string \<times> answer) list \<Rightarrow>
   response_row list \<times> (string \<times> answer) list \<Rightarrow>
   error + (response_row list \<times> (string \<times> answer) list)" where
  "save_responses userId surveyId qs [] acc = Inr acc"
| "save_responses userId surveyId qs ((questionKey, ans) # rest) (rs, savedResponses) =
     (case find (\<lambda>q. q_survey_id q = surveyId \<and> question_key q = questionKey) qs of
        None \<Rightarrow> save_responses userId surveyId qs rest (rs, savedResponses)
      | Some q \<Rightarrow>
          if list_ex (\<lambda>r. r_user_id r = userId \<and> r_survey_id r = surveyId
                          \<and> r_question_id r = q_id q) rs
          then Inl (StorageFailure responses_user_survey_question_key)
          else save_responses userId surveyId qs rest
                 (rs @ [\<lparr>r_user_id = userId, r_survey_id = surveyId, r_question_id = q_id q,
                          answer_text = (case ans of Scalar s \<Rightarrow> Some s | Options os \<Rightarrow> None),
                          answer_options = (case ans of Scalar s \<Rightarrow> None | Options os \<Rightarrow> Some os)\<rparr>],
                  savedResponses @ [(questionKey, ans)]))"

text \<open>
  The block guarded by \<open>surveyResult.rows.length > 0\<close>. The balance column is a
  DECIMAL(10,2): the UPDATE is rejected when the sum does not lie strictly between -10^8 and
  10^8 EUR. The reward itself comes from a DECIMAL(10,2) column. The origin is stored once
  more, in the INET column of \<open>activity_logs\<close>.
\<close>

definition reward_block ::
  "(string \<Rightarrow> bool) \<Rightarrow> db \<Rightarrow> uuid \<Rightarrow> nat \<Rightarrow> survey_row \<Rightarrow> string \<Rightarrow> string \<Rightarrow>
   (string \<times> answer) list \<Rightarrow> error + db" where
  "reward_block inet_in d userId surveyId s userIp userAgent savedResponses =
     (if list_ex (\<lambda>c. c_user_id c = userId \<and> c_survey_id c = surveyId) (user_completed_surveys d)
      then Inl (StorageFailure completed_user_survey_key)
      else
        (let d1 = d\<lparr>user_completed_surveys := user_completed_surveys d @
                     [\<lparr>c_user_id = userId, c_survey_id = surveyId, reward_paid = True\<rparr>]\<rparr>;
             d2 = d1\<lparr>transactions := transactions d1 @
                     [\<lparr>t_user_id = userId, t_type = survey_reward, t_amount = reward_amount s,
                       reference_id = Some (survey_key s), t_status = completed,
                       t_paypal_email = None\<rparr>]\<rparr>;
             newBalance = submit_balance_query (transactions d2) userId
         in if \<not> (- 10000000000 < newBalance \<and> newBalance < 10000000000)
            then Inl (StorageFailure numeric_field_overflow)
            else
              (let d3 = d2\<lparr>users := map (\<lambda>u. if u_id u = userId
                                              then u\<lparr>balance := newBalance\<rparr>
                                              else u) (users d2)\<rparr>
               in if \<not> inet_in userIp then Inl (StorageFailure inet_input_syntax)
                  else Inr (d3\<lparr>activity_logs := activity_logs d3 @
                             [\<lparr>a_user_id = userId, activity_type = ''survey_completed'',
                               a_ip_address = Some userIp, a_user_agent = Some userAgent,
                               metadata = SurveyMeta surveyId savedResponses\<rparr>]\<rparr>))))"

record submit_ok =
  ok_userId :: uuid
  responsesCount :: nat

text \<open>
  The route. \<open>surveyId\<close> is the path parameter read as a number; the contact key is built
  from the first reading of the clock and the referral code from the second.
\<close>

definition submit_route ::
  "(string \<Rightarrow> bool) \<Rightarrow> db \<Rightarrow> env \<Rightarrow> nat \<Rightarrow> (string \<times> answer) list \<Rightarrow> string option \<Rightarrow>
   string \<Rightarrow> string \<Rightarrow> (error + submit_ok) \<times> db" where
  "submit_route inet_in d e surveyId responses userEmail userIp userAgent =
     (case upsert_user inet_in d e (tempEmail userEmail (clock e) userIp) userIp userAgent
             (referralCode (clock_code e)) of
        Inl err \<Rightarrow> (Inl err, d)
      | Inr (userId, d1) \<Rightarrow>
          if list_ex (\<lambda>c. c_user_id c = userId \<and> c_survey_id c = surveyId)
               (user_completed_surveys d1)
          then (Inl AlreadyCompleted, d)
          else
            (case save_responses userId surveyId (survey_questions d1) responses
                    (user_survey_responses d1, []) of
               Inl err \<Rightarrow> (Inl err, d)
             | Inr (rs, savedResponses) \<Rightarrow>
                 (let d2 = d1\<lparr>user_survey_responses := rs\<rparr>;
                      ok = \<lparr>ok_userId = userId, responsesCount = length savedResponses\<rparr>
                  in case find (\<lambda>s. s_id s = surveyId) (surveys d2) of
                       None \<Rightarrow> (Inr ok, d2)
                     | Some s \<Rightarrow>
                         (case reward_block inet_in d2 userId surveyId s userIp userAgent
                                 savedResponses of
                            Inl err \<Rightarrow> (Inl err, d)
                          | Inr d3 \<Rightarrow> (Inr ok, d3)))))"

section \<open>The stored functions of the second schema file\<close>

text \<open>\<open>can_user_complete_survey\<close>: FALSE for a survey that is unknown or not active.\<close>

definition can_user_complete_survey :: "db \<Rightarrow> uuid \<Rightarrow> string \<Rightarrow> bool" where
  "can_user_complete_survey d user_uuid survey_key_param =
     (case find (\<lambda>s. survey_key s = survey_key_param \<and> is_active s) (surveys d) of
        None \<Rightarrow> False
      | Some s \<Rightarrow> \<not> list_ex (\<lambda>c. c_user_id c = user_uuid \<and> c_survey_id c = s_id s)
                      (user_completed_surveys d))"


section \<open>Serial runs of requests\<close>

text \<open>
  Requests of one account are served one after the other: each transaction is applied to the
  database that its predecessor left.
\<close>

record submit_call =
  call_env :: env
  call_responses :: "(string \<times> answer) list"
  call_userIp :: string
  call_userAgent :: string

fun submit_all ::
  "(string \<Rightarrow> bool) \<Rightarrow> db \<Rightarrow> nat \<Rightarrow> string option \<Rightarrow> submit_call list \<Rightarrow>
   (error + submit_ok) list \<times> db" where
  "submit_all inet_in d surveyId userEmail [] = ([], d)"
| "submit_all inet_in d surveyId userEmail (c # cs) =
     (case submit_route inet_in d (call_env c) surveyId (call_responses c) userEmail
             (call_userIp c) (call_userAgent c) of
        (r, d1) \<Rightarrow> (case submit_all inet_in d1 surveyId userEmail cs of (rs, d2) \<Rightarrow> (r # rs, d2)))"

fun withdraw_all ::
  "(string \<Rightarrow> bool) \<Rightarrow> db \<Rightarrow> string \<Rightarrow> uuid \<Rightarrow> string \<Rightarrow> money list \<Rightarrow> (error + unit) list \<times> db" where
  "withdraw_all inet_in d userIp userId p [] = ([], d)"
| "withdraw_all inet_in d userIp userId p (a # as) =
     (case withdrawals_route inet_in d userIp userId a (Some p) of
        (r, d1) \<Rightarrow> (case withdraw_all inet_in d1 userIp userId p as of (rs, d2) \<Rightarrow> (r # rs, d2)))"


section \<open>Submissions the database admits\<close>

text \<open>
  The id that the upsert of the submit route returns for a contact key, when it returns one.
\<close>

definition resolved_account :: "db \<Rightarrow> env \<Rightarrow> string \<Rightarrow> uuid" where
  "resolved_account d e em =
     (case find (\<lambda>u. email u = em) (users d) of
        Some row \<Rightarrow> u_id row
      | None \<Rightarrow> new_uuid e)"

text \<open>
  The conditions on the request and on the database under which no statement of a submission
  is rejected: the origin is a network address, the contact key fits its column, a new account
  gets a referral code and an id that are unused, the account has neither a completion record
  nor stored answers for the survey, the keys of \<open>responses\<close> are those of an object
  (pairwise different), and the new balance fits its column.
\<close>

definition admissible ::
  "(string \<Rightarrow> bool) \<Rightarrow> db \<Rightarrow> env \<Rightarrow> nat \<Rightarrow> (string \<times> answer) list \<Rightarrow> string option \<Rightarrow>
   string \<Rightarrow> bool" where
  "admissible inet_in d e surveyId responses userEmail userIp =
     (let em = tempEmail userEmail (clock e) userIp;
          uid = resolved_account d e em
      in inet_in userIp \<and> length em \<le> 255
       \<and> (case find (\<lambda>u. email u = em) (users d) of
            Some row \<Rightarrow> True
          | None \<Rightarrow> \<not> list_ex (\<lambda>u. referral_code u = referralCode (clock_code e)) (users d)
                   \<and> \<not> list_ex (\<lambda>u. u_id u = new_uuid e) (users d))
       \<and> \<not> list_ex (\<lambda>c. c_user_id c = uid \<and> c_survey_id c = surveyId) (user_completed_surveys d)
       \<and> \<not> list_ex (\<lambda>r. r_user_id r = uid \<and> r_survey_id r = surveyId) (user_survey_responses d)
       \<and> distinct (map fst responses)
       \<and> (case find (\<lambda>s. s_id s = surveyId) (surveys d) of
            None \<Rightarrow> True
          | Some s \<Rightarrow> - 10000000000 < submit_balance_query (transactions d) uid + reward_amount s
                    \<and> submit_balance_query (transactions d) uid + reward_amount s < 10000000000))"

section \<open>Example databases\<close>

text \<open>
  An acceptance test for the examples: the dotted quads \<open>a.b.c.d\<close> of decimal numbers up
  to 255. The INET type accepts each of them. It also accepts texts that this test refuses
  (addresses of IP version 6, a network mask); the examples use none of those. A text with a
  comma or a blank is refused by both.
\<close>

definition is_digit :: "char \<Rightarrow> bool" where
  "is_digit c = (c \<in> set ''0123456789'')"

fun split_dots :: "string \<Rightarrow> string list" where
  "split_dots [] = [[]]"
| "split_dots (c # cs) =
     (if c = CHR ''.'' then [] # split_dots cs
      else (case split_dots cs of [] \<Rightarrow> [[c]] | p # ps \<Rightarrow> (c # p) # ps))"

definition octet_value :: "string \<Rightarrow> nat" where
  "octet_value s = foldl (\<lambda>a c. 10 * a + (of_char c - 48)) 0 s"

definition octet :: "string \<Rightarrow> bool" where
  "octet s = (s \<noteq> [] \<and> length s \<le> 3 \<and> list_all is_digit s \<and> octet_value s \<le> 255)"

definition ipv4_address :: "string \<Rightarrow> bool" where
  "ipv4_address s = (length (split_dots s) = 4 \<and> list_all octet (split_dots s))"

text \<open>
  The seed rows of the schema files (the administrator, the first two surveys with their
  first questions, the referral configuration), and one survey that has been switched off.
\<close>

definition seed_db :: db where
  "seed_db =
     \<lparr>users = [\<lparr>u_id = 1, email = ''admin@angelessinalas.com'', password_hash = Some ''x'',
                 balance = 0, referral_code = ''ADMIN001'', referred_by = None,
                 total_referrals = 0, ip_address = None, user_agent = None,
                 email_verified = False, verification_token = None, created_at = 0,
                 updated_at = 0, last_login = None\<rparr>],
      surveys = [\<lparr>s_id = 1, survey_key = ''main_survey'', reward_amount = 500, is_active = True\<rparr>,
                 \<lparr>s_id = 2, survey_key = ''communication'', reward_amount = 100, is_active = True\<rparr>,
                 \<lparr>s_id = 3, survey_key = ''donations'', reward_amount = 100, is_active = False\<rparr>],
      survey_questions = [\<lparr>q_id = 1, q_survey_id = 1, question_key = ''q1''\<rparr>,
                          \<lparr>q_id = 2, q_survey_id = 1, question_key = ''q2''\<rparr>,
                          \<lparr>q_id = 11, q_survey_id = 2, question_key = ''communication_q1''\<rparr>,
                          \<lparr>q_id = 12, q_survey_id = 3, question_key = ''donations_q1''\<rparr>],
      user_survey_responses = [],
      user_completed_surveys = [],
      transactions = [],
      referrals = [],
      withdrawal_requests = [],
      activity_logs = [],
      config = \<lparr>referral_bonus_threshold = Some 10, referral_bonus_amount = Some 1000\<rparr>\<rparr>"

text \<open>Three requests; in each the two readings of the clock fall into the same millisecond.\<close>

definition env1 :: env where
  "env1 = \<lparr>clock = 1700000000000, clock_code = 1700000000000, db_now = 1700000000000, new_uuid = 2\<rparr>"

definition env2 :: env where
  "env2 = \<lparr>clock = 1700001000000, clock_code = 1700001000000, db_now = 1700001000000, new_uuid = 3\<rparr>"

definition env3 :: env where
  "env3 = \<lparr>clock = 1700000000001, clock_code = 1700000000001, db_now = 1700000000001, new_uuid = 3\<rparr>"

text \<open>The seed database after \<open>ana@example.org\<close> has answered the main survey.\<close>

definition ana_db :: db where
  "ana_db = snd (submit_route ipv4_address seed_db env1 1 [(''q1'', Scalar ''No'')]
                   (Some ''ana@example.org'') ''10.0.0.7'' ''Mozilla'')"

text \<open>... and after her request to withdraw the 5.00 EUR she earned.\<close>

definition ana_withdrawn_db :: db where
  "ana_withdrawn_db =
     snd (withdrawals_route ipv4_address ana_db ''10.0.0.7'' 2 500 (Some ''ana@paypal.example''))"


text \<open>The seed database after a submission without a contact key.\<close>

definition anon_db :: db where
  "anon_db = snd (submit_route ipv4_address seed_db env1 1 [(''q1'', Scalar ''No'')] None
                    ''10.0.0.7'' ''Mozilla'')"

section \<open>Evaluation lemmas\<close>

lemma toString_small: "n < 10 \<Longrightarrow> toString n = [digit_char n]"
  by (subst toString.simps) simp

lemma toString_big: "10 \<le> n \<Longrightarrow> toString n = toString (n div 10) @ [digit_char (n mod 10)]"
  by (subst toString.simps) simp

lemma referralCode_env1: "referralCode 1700000000000 = ''REF000000''"
  by (simp add: referralCode_def slice_last_def toString_small toString_big digit_char_def)

lemma ipv4_10_0_0_7: "ipv4_address ''10.0.0.7''"
  by (simp add: ipv4_address_def octet_def octet_value_def is_digit_def)

lemma ipv4_10_0_0_9: "ipv4_address ''10.0.0.9''"
  by (simp add: ipv4_address_def octet_def octet_value_def is_digit_def)

lemma ipv4_proxy_chain: "\<not> ipv4_address ''10.0.0.7, 10.0.0.8''"
  by (simp add: ipv4_address_def octet_def octet_value_def is_digit_def)

lemma ana_db_eq: "ana_db =
  seed_db\<lparr>users := users seed_db @ [\<lparr>u_id = 2, email = ''ana@example.org'', password_hash = None,
       balance = 500, referral_code = ''REF000000'', referred_by = None, total_referrals = 0,
       ip_address = Some ''10.0.0.7'', user_agent = Some ''Mozilla'', email_verified = False,
       verification_token = None, created_at = 1700000000000, updated_at = 1700000000000,
       last_login = None\<rparr>],
     user_survey_responses := [\<lparr>r_user_id = 2, r_survey_id = 1, r_question_id = 1,
       answer_text = Some ''No'', answer_options = None\<rparr>],
     user_completed_surveys := [\<lparr>c_user_id = 2, c_survey_id = 1, reward_paid = True\<rparr>],
     transactions := [\<lparr>t_user_id = 2, t_type = survey_reward, t_amount = 500,
       reference_id = Some ''main_survey'', t_status = completed, t_paypal_email = None\<rparr>],
     activity_logs := [\<lparr>a_user_id = 2, activity_type = ''survey_completed'',
       a_ip_address = Some ''10.0.0.7'', a_user_agent = Some ''Mozilla'',
       metadata = SurveyMeta 1 [(''q1'', Scalar ''No'')]\<rparr>]\<rparr>"
  by (simp add: ana_db_def seed_db_def env1_def submit_route_def upsert_user_def tempEmail_def
      referralCode_env1 reward_block_def Let_def submit_balance_query_def sql_sum_def coalesce_def
      ipv4_10_0_0_7)

lemma ana_row: "find (\<lambda>u. u_id u = 2) (users ana_db) =
   Some \<lparr>u_id = 2, email = ''ana@example.org'', password_hash = None,
       balance = 500, referral_code = ''REF000000'', referred_by = None, total_referrals = 0,
       ip_address = Some ''10.0.0.7'', user_agent = Some ''Mozilla'', email_verified = False,
       verification_token = None, created_at = 1700000000000, updated_at = 1700000000000,
       last_login = None\<rparr>"
  by (simp add: ana_db_eq seed_db_def)

lemma ana_transactions: "transactions ana_db = [\<lparr>t_user_id = 2, t_type = survey_reward, t_amount = 500,
       reference_id = Some ''main_survey'', t_status = completed, t_paypal_email = None\<rparr>]"
  by (simp add: ana_db_eq)

section \<open>Withdrawal route: basic facts\<close>

lemma withdrawals_route_ok:
  assumes "find (\<lambda>u. u_id u = userId) (users d) = Some row" "amount \<le> balance row" "500 \<le> amount"
      and "inet_in userIp" "length p \<le> 255"
  shows "withdrawals_route inet_in d userIp userId amount (Some p) =
     (Inr (),
      d\<lparr>withdrawal_requests := withdrawal_requests d @
           [\<lparr>w_user_id = userId, w_amount = amount, w_paypal_email = p, w_status = wr_pending\<rparr>],
        transactions := transactions d @
           [\<lparr>t_user_id = userId, t_type = withdrawal_request, t_amount = amount,
             reference_id = None, t_status = pending, t_paypal_email = Some p\<rparr>],
        activity_logs := activity_logs d @
           [\<lparr>a_user_id = userId, activity_type = ''withdrawal_requested'',
             a_ip_address = Some userIp, a_user_agent = None,
             metadata = WithdrawalMeta amount (Some p)\<rparr>]\<rparr>)"
  using assms by (simp add: withdrawals_route_def)

lemma withdrawals_route_success_iff:
  "(fst (withdrawals_route inet_in d userIp userId amount paypalEmail) = Inr ()) =
   (\<exists>row p. find (\<lambda>u. u_id u = userId) (users d) = Some row \<and> amount \<le> balance row
        \<and> 500 \<le> amount \<and> paypalEmail = Some p \<and> length p \<le> 255 \<and> inet_in userIp)"
  by (auto simp: withdrawals_route_def Let_def split: option.splits)

lemma withdrawals_route_error_rollback:
  "fst (withdrawals_route inet_in d ip uid a p) = Inl e \<Longrightarrow> snd (withdrawals_route inet_in d ip uid a p) = d"
  by (auto simp: withdrawals_route_def Let_def split: option.splits if_splits)

lemma withdrawals_route_users:
  "users (snd (withdrawals_route inet_in d ip uid a p)) = users d"
  by (simp add: withdrawals_route_def Let_def split: option.splits)

lemma ana_withdrawn_db_eq:
  "ana_withdrawn_db = ana_db\<lparr>withdrawal_requests := 
           [\<lparr>w_user_id = 2, w_amount = 500, w_paypal_email = ''ana@paypal.example'', w_status = wr_pending\<rparr>],
        transactions := [\<lparr>t_user_id = 2, t_type = survey_reward, t_amount = 500,
       reference_id = Some ''main_survey'', t_status = completed, t_paypal_email = None\<rparr>,
           \<lparr>t_user_id = 2, t_type = withdrawal_request, t_amount = 500,
             reference_id = None, t_status = pending, t_paypal_email = Some ''ana@paypal.example''\<rparr>],
        activity_logs := activity_logs ana_db @
           [\<lparr>a_user_id = 2, activity_type = ''withdrawal_requested'',
             a_ip_address = Some ''10.0.0.7'', a_user_agent = None,
             metadata = WithdrawalMeta 500 (Some ''ana@paypal.example'')\<rparr>]\<rparr>"
  unfolding ana_withdrawn_db_def
  by (simp add: withdrawals_route_ok[where inet_in = ipv4_address and userIp = "''10.0.0.7''", OF ana_row _ _ ipv4_10_0_0_7] ana_transactions) (simp add: ana_db_eq seed_db_def)

section \<open>Withdrawal route: claims\<close>

text \<open>
  Claim C9. A successful withdrawal request changes no users row: the cached balance column is
  what it was, the debit exists only as one new pending row of \<open>transactions\<close> and one new
  row of \<open>withdrawal_requests\<close>, and a further request of the same account is decided as it
  would have been before.
\<close>

theorem withdrawal_leaves_users_untouched:
  assumes "withdrawals_route inet_in d userIp userId amount paypalEmail = (Inr (), d')"
  shows "users d' = users d
       \<and> transactions d' = transactions d @
           [\<lparr>t_user_id = userId, t_type = withdrawal_request, t_amount = amount,
             reference_id = None, t_status = pending, t_paypal_email = paypalEmail\<rparr>]
       \<and> (\<exists>p. paypalEmail = Some p \<and> withdrawal_requests d' = withdrawal_requests d @
           [\<lparr>w_user_id = userId, w_amount = amount, w_paypal_email = p, w_status = wr_pending\<rparr>])
       \<and> fst (withdrawals_route inet_in d' userIp2 userId amount2 paypalEmail2)
           = fst (withdrawals_route inet_in d userIp2 userId amount2 paypalEmail2)"
  using assms
  by (auto simp: withdrawals_route_def Let_def split: option.splits if_splits)

theorem withdrawal_leaves_users_untouched_witness:
  "withdrawals_route ipv4_address ana_db ''10.0.0.7'' 2 500 (Some ''ana@paypal.example'') = (Inr (), ana_withdrawn_db)
   \<and> users ana_withdrawn_db = users ana_db
   \<and> map balance (filter (\<lambda>u. u_id u = 2) (users ana_withdrawn_db)) = [500]
   \<and> fst (withdrawals_route ipv4_address ana_withdrawn_db ''10.0.0.7'' 2 500 (Some ''ana@paypal.example''))
       = fst (withdrawals_route ipv4_address ana_db ''10.0.0.7'' 2 500 (Some ''ana@paypal.example''))"
proof -
  have h: "withdrawals_route ipv4_address ana_db ''10.0.0.7'' 2 500 (Some ''ana@paypal.example'') = (Inr (), ana_withdrawn_db)"
    unfolding ana_withdrawn_db_def
    by (simp add: withdrawals_route_ok[where inet_in = ipv4_address and userIp = "''10.0.0.7''", OF ana_row _ _ ipv4_10_0_0_7])
  have b: "map balance (filter (\<lambda>u. u_id u = 2) (users ana_db)) = [500]"
    by (simp add: ana_db_eq seed_db_def)
  from withdrawal_leaves_users_untouched[OF h, of "''10.0.0.7''" 500 "Some ''ana@paypal.example''"] h b
  show ?thesis by simp
qed

text \<open>
  Requests for the same amount, each within the cached balance, all succeed, however many.
\<close>

lemma withdraw_all_Cons:
  "withdraw_all inet_in d userIp userId p (a # as) =
     (fst (withdrawals_route inet_in d userIp userId a (Some p))
        # fst (withdraw_all inet_in (snd (withdrawals_route inet_in d userIp userId a (Some p))) userIp userId p as),
      snd (withdraw_all inet_in (snd (withdrawals_route inet_in d userIp userId a (Some p))) userIp userId p as))"
  by (simp split: prod.splits)

lemma withdraw_all_replicate:
  assumes "find (\<lambda>u. u_id u = userId) (users d) = Some row" "amount \<le> balance row" "500 \<le> amount"
      and "inet_in userIp" "length p \<le> 255"
  shows "fst (withdraw_all inet_in d userIp userId p (replicate n amount)) = replicate n (Inr ())"
  using assms(1)
proof (induction n arbitrary: d)
  case 0
  then show ?case by simp
next
  case (Suc n)
  let ?d1 = "snd (withdrawals_route inet_in d userIp userId amount (Some p))"
  have ok: "fst (withdrawals_route inet_in d userIp userId amount (Some p)) = Inr ()"
    using withdrawals_route_ok[where inet_in = inet_in and userIp = userIp, OF Suc.prems assms(2,3,4,5)] by simp
  have "find (\<lambda>u. u_id u = userId) (users ?d1) = Some row"
    using Suc.prems by (simp add: withdrawals_route_users)
  from Suc.IH[OF this] ok show ?case
    by (simp add: withdraw_all_Cons del: withdraw_all.simps)
qed

text \<open>
  Claim C2. Two withdrawal requests whose amounts sum to more than the balance must not both
  succeed. On the database in which the account holds 5.00 EUR, two requests of 5.00 EUR served
  one after the other both succeed; the balance derived from the ledger is then -5.00 EUR.
\<close>

theorem concurrent_withdrawals_overdraw:
  "map balance (filter (\<lambda>u. u_id u = 2) (users ana_db)) = [500]
   \<and> spec_balance (transactions ana_db) 2 = 500
   \<and> fst (withdraw_all ipv4_address ana_db ''10.0.0.7'' 2 ''ana@paypal.example'' [500, 500]) = [Inr (), Inr ()]
   \<and> get_user_balance (transactions (snd (withdraw_all ipv4_address ana_db ''10.0.0.7'' 2 ''ana@paypal.example'' [500, 500]))) 2 = - 500
   \<and> spec_balance (transactions (snd (withdraw_all ipv4_address ana_db ''10.0.0.7'' 2 ''ana@paypal.example'' [500, 500]))) 2 = - 500"
proof -
  have b: "map balance (filter (\<lambda>u. u_id u = 2) (users ana_db)) = [500]"
    by (simp add: ana_db_eq seed_db_def)
  have s0: "spec_balance (transactions ana_db) 2 = 500"
    by (simp add: ana_transactions spec_balance_def)
  let ?d1 = "snd (withdrawals_route ipv4_address ana_db ''10.0.0.7'' 2 500 (Some ''ana@paypal.example''))"
  have r1: "fst (withdrawals_route ipv4_address ana_db ''10.0.0.7'' 2 500 (Some ''ana@paypal.example'')) = Inr ()"
    by (simp add: withdrawals_route_ok[where inet_in = ipv4_address and userIp = "''10.0.0.7''", OF ana_row _ _ ipv4_10_0_0_7])
  have t1: "transactions ?d1 = transactions ana_db @ [\<lparr>t_user_id = 2, t_type = withdrawal_request, t_amount = 500,
             reference_id = None, t_status = pending, t_paypal_email = Some ''ana@paypal.example''\<rparr>]"
    by (simp add: withdrawals_route_ok[where inet_in = ipv4_address and userIp = "''10.0.0.7''", OF ana_row _ _ ipv4_10_0_0_7])
  have row1: "find (\<lambda>u. u_id u = 2) (users ?d1) = find (\<lambda>u. u_id u = 2) (users ana_db)"
    by (simp add: withdrawals_route_users)
  note ok2 = withdrawals_route_ok[where inet_in = ipv4_address and userIp = "''10.0.0.7''", OF row1[unfolded ana_row] _ _ ipv4_10_0_0_7]
  let ?d2 = "snd (withdrawals_route ipv4_address ?d1 ''10.0.0.7'' 2 500 (Some ''ana@paypal.example''))"
  have r2: "fst (withdrawals_route ipv4_address ?d1 ''10.0.0.7'' 2 500 (Some ''ana@paypal.example'')) = Inr ()"
    by (simp add: ok2)
  have t2: "transactions ?d2 = transactions ?d1 @ [\<lparr>t_user_id = 2, t_type = withdrawal_request, t_amount = 500,
             reference_id = None, t_status = pending, t_paypal_email = Some ''ana@paypal.example''\<rparr>]"
    by (simp add: ok2)
  have all: "withdraw_all ipv4_address ana_db ''10.0.0.7'' 2 ''ana@paypal.example'' [500, 500] = ([Inr (), Inr ()], ?d2)"
    by (simp add: withdraw_all_Cons r1 r2 del: withdraw_all.simps(2))
  have g: "get_user_balance (transactions ?d2) 2 = - 500"
    unfolding t2 t1 ana_transactions by (simp add: get_user_balance_def sql_sum_def coalesce_def)
  have s: "spec_balance (transactions ?d2) 2 = - 500"
    unfolding t2 t1 ana_transactions by (simp add: spec_balance_def)
  show ?thesis using b s0 g s unfolding all by simp
qed

text \<open>
  Claim C3, as stated, fails: with a pending debit of 5.00 EUR against a credit of 5.00 EUR the
  balance recomputed from the ledger is 0, and a request of 5.00 EUR is still accepted.
\<close>

theorem withdrawal_check_not_recomputed_counterexample:
  "spec_balance (transactions ana_withdrawn_db) 2 = 0
   \<and> get_user_balance (transactions ana_withdrawn_db) 2 = 0
   \<and> fst (withdrawals_route ipv4_address ana_withdrawn_db ''10.0.0.7'' 2 500 (Some ''ana@paypal.example'')) = Inr ()"
proof -
  have u: "find (\<lambda>u. u_id u = 2) (users ana_withdrawn_db) = find (\<lambda>u. u_id u = 2) (users ana_db)"
    by (simp add: ana_withdrawn_db_def withdrawals_route_users)
  have "fst (withdrawals_route ipv4_address ana_withdrawn_db ''10.0.0.7'' 2 500 (Some ''ana@paypal.example'')) = Inr ()"
    by (simp add: withdrawals_route_ok[where inet_in = ipv4_address and userIp = "''10.0.0.7''", OF u[unfolded ana_row] _ _ ipv4_10_0_0_7])
  then show ?thesis
    by (simp add: ana_withdrawn_db_eq spec_balance_def get_user_balance_def sql_sum_def coalesce_def)
qed

text \<open>
  Claim C3, amended. The balance compared with the requested amount is the \<open>balance\<close>
  column of the account's users row, read inside the transaction: the request fails with
  \<open>InsufficientBalance\<close> exactly when that column is below the amount, and the outcome does
  not depend on the rows of \<open>transactions\<close>.
\<close>

theorem withdrawal_check_reads_cached_balance:
  assumes "find (\<lambda>u. u_id u = userId) (users d) = Some row"
  shows "(fst (withdrawals_route inet_in d userIp userId amount paypalEmail) = Inl InsufficientBalance)
           = (balance row < amount)
       \<and> fst (withdrawals_route inet_in (d\<lparr>transactions := txs\<rparr>) userIp userId amount paypalEmail)
           = fst (withdrawals_route inet_in d userIp userId amount paypalEmail)"
  using assms by (auto simp: withdrawals_route_def Let_def split: option.splits)

theorem withdrawal_check_reads_cached_balance_witness:
  "fst (withdrawals_route ipv4_address ana_db ''10.0.0.7'' 2 501 (Some ''ana@paypal.example'')) = Inl InsufficientBalance
   \<and> fst (withdrawals_route ipv4_address (ana_db\<lparr>transactions := []\<rparr>) ''10.0.0.7'' 2 500 (Some ''ana@paypal.example''))
       = fst (withdrawals_route ipv4_address ana_db ''10.0.0.7'' 2 500 (Some ''ana@paypal.example''))"
  using withdrawal_check_reads_cached_balance[OF ana_row, of ipv4_address "''10.0.0.7''" 501 "Some ''ana@paypal.example''"]
        withdrawal_check_reads_cached_balance[OF ana_row, of ipv4_address "''10.0.0.7''" 500 "Some ''ana@paypal.example''" "[]"]
  by simp







section \<open>Balance computations: facts\<close>

lemma coalesce_sql_sum: "coalesce (sql_sum xs) 0 = sum_list xs"
  by (simp add: coalesce_def sql_sum_def)

lemma balance_case_split_sum:
  "sum_list (map balance_case (filter P txs)) =
     sum_list (map t_amount (filter (\<lambda>t. P t \<and> (t_type t = survey_reward \<or> t_type t = referral_bonus)) txs))
   - sum_list (map t_amount (filter (\<lambda>t. P t \<and> (t_type t = withdrawal_request \<or> t_type t = withdrawal_completed)) txs))"
proof (induction txs)
  case Nil
  then show ?case by simp
next
  case (Cons t txs)
  then show ?case by (cases "t_type t") auto
qed

section \<open>Submit route: basic facts\<close>

lemma upsert_user_tables:
  assumes "upsert_user inet_in d e em ip ua rc = Inr (uid, d1)"
  shows "d1 = d\<lparr>users := users d1\<rparr>"
  using assms by (auto simp: upsert_user_def split: option.splits if_splits)

lemma upsert_user_existing:
  assumes "find (\<lambda>u. email u = em) (users d) = Some row"
      and "inet_in ip" "length em \<le> 255"
  shows "upsert_user inet_in d e em ip ua rc =
           Inr (u_id row,
                d\<lparr>users := map (\<lambda>u. if email u = em
                                      then u\<lparr>ip_address := Some ip, user_agent := Some ua,
                                             updated_at := db_now e\<rparr>
                                      else u) (users d)\<rparr>)"
  using assms by (simp add: upsert_user_def)

lemma find_map_preserved:
  assumes "\<And>x. P (f x) = P x"
  shows "find P (map f xs) = map_option f (find P xs)"
  using assms by (induction xs) auto

lemma find_append_None: "find P xs = None \<Longrightarrow> find P (xs @ ys) = find P ys"
  by (induction xs) (auto split: if_splits)

lemma find_append_Some: "find P xs = Some x \<Longrightarrow> find P (xs @ ys) = Some x"
  by (induction xs) (auto split: if_splits)

lemma find_Some_D: "find P xs = Some x \<Longrightarrow> x \<in> set xs \<and> P x"
  by (induction xs) (auto split: if_splits)

lemma find_None_D: "find P xs = None \<Longrightarrow> x \<in> set xs \<Longrightarrow> \<not> P x"
  by (induction xs) (auto split: if_splits)

lemma upsert_user_accepts:
  assumes "upsert_user inet_in d e em ip ua rc = Inr (uid, d1)"
  shows "inet_in ip \<and> length em \<le> 255"
  using assms by (auto simp: upsert_user_def split: if_splits)

lemma upsert_user_has_row:
  assumes "upsert_user inet_in d e em ip ua rc = Inr (uid, d1)"
  shows "\<exists>row. find (\<lambda>u. email u = em) (users d1) = Some row \<and> u_id row = uid"
proof (cases "find (\<lambda>u. email u = em) (users d)")
  case None
  with assms show ?thesis
    by (auto simp: upsert_user_def find_append_None split: if_splits)
next
  case (Some row)
  let ?f = "\<lambda>u. if email u = em then u\<lparr>ip_address := Some ip, user_agent := Some ua, updated_at := db_now e\<rparr> else u"
  have "find (\<lambda>u. email u = em) (map ?f (users d)) = map_option ?f (find (\<lambda>u. email u = em) (users d))"
    by (rule find_map_preserved) simp
  with Some assms upsert_user_accepts[OF assms] show ?thesis
    by (auto simp: upsert_user_existing[where inet_in = inet_in and ip = ip, OF Some] dest: find_Some_D)
qed

lemma upsert_user_id_present:
  assumes "upsert_user inet_in d e em ip ua rc = Inr (uid, d1)"
  shows "list_ex (\<lambda>u. u_id u = uid) (users d1)"
  using upsert_user_has_row[OF assms] by (auto simp: list_ex_iff dest: find_Some_D)

lemma submit_route_Inr:
  assumes "submit_route inet_in d e surveyId responses userEmail userIp userAgent = (Inr ok, d')"
  shows "\<exists>d1 rs saved.
           upsert_user inet_in d e (tempEmail userEmail (clock e) userIp) userIp userAgent
              (referralCode (clock_code e)) = Inr (ok_userId ok, d1)
         \<and> \<not> list_ex (\<lambda>c. c_user_id c = ok_userId ok \<and> c_survey_id c = surveyId) (user_completed_surveys d1)
         \<and> save_responses (ok_userId ok) surveyId (survey_questions d1) responses
              (user_survey_responses d1, []) = Inr (rs, saved)
         \<and> responsesCount ok = length saved
         \<and> (case find (\<lambda>s. s_id s = surveyId) (surveys d1) of
               None \<Rightarrow> d' = d1\<lparr>user_survey_responses := rs\<rparr>
             | Some s \<Rightarrow> reward_block inet_in (d1\<lparr>user_survey_responses := rs\<rparr>) (ok_userId ok) surveyId s
                            userIp userAgent saved = Inr d')"
  using assms
  by (auto simp: submit_route_def Let_def split: sum.splits prod.splits if_splits option.splits)

lemma submit_route_error_rollback:
  "fst (submit_route inet_in d e surveyId responses userEmail userIp userAgent) = Inl err \<Longrightarrow>
   snd (submit_route inet_in d e surveyId responses userEmail userIp userAgent) = d"
  by (auto simp: submit_route_def Let_def split: sum.splits prod.splits if_splits option.splits)

lemma reward_block_Inr:
  assumes "reward_block inet_in d userId surveyId s userIp userAgent saved = Inr d'"
  shows "\<not> list_ex (\<lambda>c. c_user_id c = userId \<and> c_survey_id c = surveyId) (user_completed_surveys d)
       \<and> user_completed_surveys d' = user_completed_surveys d @
             [\<lparr>c_user_id = userId, c_survey_id = surveyId, reward_paid = True\<rparr>]
       \<and> transactions d' = transactions d @
             [\<lparr>t_user_id = userId, t_type = survey_reward, t_amount = reward_amount s,
               reference_id = Some (survey_key s), t_status = completed, t_paypal_email = None\<rparr>]
       \<and> users d' = map (\<lambda>u. if u_id u = userId
                                then u\<lparr>balance := submit_balance_query (transactions d') userId\<rparr>
                                else u) (users d)
       \<and> surveys d' = surveys d \<and> survey_questions d' = survey_questions d
       \<and> user_survey_responses d' = user_survey_responses d
       \<and> referrals d' = referrals d \<and> withdrawal_requests d' = withdrawal_requests d
       \<and> config d' = config d"
  using assms by (auto simp: reward_block_def Let_def split: if_splits)

lemma ana_submit:
  "submit_route ipv4_address seed_db env1 1 [(''q1'', Scalar ''No'')] (Some ''ana@example.org'')
      ''10.0.0.7'' ''Mozilla'' = (Inr \<lparr>ok_userId = 2, responsesCount = 1\<rparr>, ana_db)"
proof -
  have "fst (submit_route ipv4_address seed_db env1 1 [(''q1'', Scalar ''No'')] (Some ''ana@example.org'')
      ''10.0.0.7'' ''Mozilla'') = Inr \<lparr>ok_userId = 2, responsesCount = 1\<rparr>"
    by (simp add: seed_db_def env1_def submit_route_def upsert_user_def tempEmail_def
      referralCode_env1 reward_block_def Let_def submit_balance_query_def sql_sum_def coalesce_def
      ipv4_10_0_0_7)
  then show ?thesis
    by (simp add: ana_db_def prod_eq_iff)
qed

lemma ana_withdrawn_transactions:
  "transactions ana_withdrawn_db =
     [\<lparr>t_user_id = 2, t_type = survey_reward, t_amount = 500,
       reference_id = Some ''main_survey'', t_status = completed, t_paypal_email = None\<rparr>,
      \<lparr>t_user_id = 2, t_type = withdrawal_request, t_amount = 500,
       reference_id = None, t_status = pending, t_paypal_email = Some ''ana@paypal.example''\<rparr>]"
  by (simp add: ana_withdrawn_db_eq)

section \<open>Balance: claims\<close>

text \<open>
  Claim C1. The balance of an account counts a pending withdrawal debit as deducted and leaves
  failed and cancelled entries out. The program computes the balance in two places that
  contradict each other and the claim. With a completed credit of 5.00 EUR and a pending debit
  of 5.00 EUR the claim gives 0; \<open>get_user_balance\<close> of schema.sql gives 0 as well, but the
  column the submit route maintains, and the subquery that fills it, give 5.00 EUR. With that
  debit settled as failed the claim gives 5.00 EUR, and so does the subquery of the submit
  route, but \<open>get_user_balance\<close> of schema.sql gives 0.
\<close>

theorem balance_computations_disagree:
  "map balance (filter (\<lambda>u. u_id u = 2) (users ana_withdrawn_db)) = [500]
   \<and> submit_balance_query (transactions ana_withdrawn_db) 2 = 500
   \<and> get_user_balance (transactions ana_withdrawn_db) 2 = 0
   \<and> spec_balance (transactions ana_withdrawn_db) 2 = 0
   \<and> get_user_balance (map (\<lambda>t. if t_type t = withdrawal_request then t\<lparr>t_status := failed\<rparr> else t)
         (transactions ana_withdrawn_db)) 2 = 0
   \<and> submit_balance_query (map (\<lambda>t. if t_type t = withdrawal_request then t\<lparr>t_status := failed\<rparr> else t)
         (transactions ana_withdrawn_db)) 2 = 500
   \<and> spec_balance (map (\<lambda>t. if t_type t = withdrawal_request then t\<lparr>t_status := failed\<rparr> else t)
         (transactions ana_withdrawn_db)) 2 = 500"
proof -
  have "map balance (filter (\<lambda>u. u_id u = 2) (users ana_withdrawn_db)) = [500]"
    by (simp add: ana_withdrawn_db_def withdrawals_route_users) (simp add: ana_db_eq seed_db_def)
  then show ?thesis
    unfolding ana_withdrawn_transactions
    by (simp add: submit_balance_query_def spec_balance_def get_user_balance_def sql_sum_def coalesce_def)
qed

section \<open>Submit route: unknown and inactive surveys\<close>

text \<open>
  Claim C5. A submission for a survey that does not exist, or that is not active, must fail.
  On the seed database a submission for the unknown survey 99 answers success (nothing is
  rewarded), and a submission for survey 3, which is switched off, answers success and credits
  its reward; the stored function \<open>can_user_complete_survey\<close> refuses that same survey.
\<close>

theorem submit_unknown_or_inactive_survey_succeeds:
  "find (\<lambda>s. s_id s = 99) (surveys seed_db) = None
   \<and> fst (submit_route ipv4_address seed_db env1 99 [(''q1'', Scalar ''No'')] (Some ''ana@example.org'')
          ''10.0.0.7'' ''Mozilla'') = Inr \<lparr>ok_userId = 2, responsesCount = 0\<rparr>
   \<and> map is_active (filter (\<lambda>s. s_id s = 3) (surveys seed_db)) = [False]
   \<and> fst (submit_route ipv4_address seed_db env1 3 [(''donations_q1'', Scalar ''Nunca'')] (Some ''ana@example.org'')
          ''10.0.0.7'' ''Mozilla'') = Inr \<lparr>ok_userId = 2, responsesCount = 1\<rparr>
   \<and> transactions (snd (submit_route ipv4_address seed_db env1 3 [(''donations_q1'', Scalar ''Nunca'')]
          (Some ''ana@example.org'') ''10.0.0.7'' ''Mozilla''))
        = [\<lparr>t_user_id = 2, t_type = survey_reward, t_amount = 100,
            reference_id = Some ''donations'', t_status = completed, t_paypal_email = None\<rparr>]
   \<and> \<not> can_user_complete_survey seed_db 2 ''donations''"
proof -
  have a: "find (\<lambda>s. s_id s = 99) (surveys seed_db) = None"
    by (simp add: seed_db_def)
  have b: "fst (submit_route ipv4_address seed_db env1 99 [(''q1'', Scalar ''No'')] (Some ''ana@example.org'')
          ''10.0.0.7'' ''Mozilla'') = Inr \<lparr>ok_userId = 2, responsesCount = 0\<rparr>"
    by (simp add: seed_db_def env1_def submit_route_def upsert_user_def tempEmail_def
      referralCode_env1 Let_def ipv4_10_0_0_7)
  have c: "map is_active (filter (\<lambda>s. s_id s = 3) (surveys seed_db)) = [False]"
    by (simp add: seed_db_def)
  have d: "submit_route ipv4_address seed_db env1 3 [(''donations_q1'', Scalar ''Nunca'')] (Some ''ana@example.org'')
          ''10.0.0.7'' ''Mozilla'' =
      (Inr \<lparr>ok_userId = 2, responsesCount = 1\<rparr>,
       seed_db\<lparr>users := users seed_db @ [\<lparr>u_id = 2, email = ''ana@example.org'', password_hash = None,
          balance = 100, referral_code = ''REF000000'', referred_by = None, total_referrals = 0,
          ip_address = Some ''10.0.0.7'', user_agent = Some ''Mozilla'', email_verified = False,
          verification_token = None, created_at = 1700000000000, updated_at = 1700000000000,
          last_login = None\<rparr>],
        user_survey_responses := [\<lparr>r_user_id = 2, r_survey_id = 3, r_question_id = 12,
          answer_text = Some ''Nunca'', answer_options = None\<rparr>],
        user_completed_surveys := [\<lparr>c_user_id = 2, c_survey_id = 3, reward_paid = True\<rparr>],
        transactions := [\<lparr>t_user_id = 2, t_type = survey_reward, t_amount = 100,
          reference_id = Some ''donations'', t_status = completed, t_paypal_email = None\<rparr>],
        activity_logs := [\<lparr>a_user_id = 2, activity_type = ''survey_completed'',
          a_ip_address = Some ''10.0.0.7'', a_user_agent = Some ''Mozilla'',
          metadata = SurveyMeta 3 [(''donations_q1'', Scalar ''Nunca'')]\<rparr>]\<rparr>)"
    by (simp add: seed_db_def env1_def submit_route_def upsert_user_def tempEmail_def
      referralCode_env1 reward_block_def Let_def submit_balance_query_def sql_sum_def coalesce_def
      ipv4_10_0_0_7)
  have e: "\<not> can_user_complete_survey seed_db 2 ''donations''"
    by (simp add: can_user_complete_survey_def seed_db_def)
  show ?thesis
    unfolding d using a b c e by simp
qed




section \<open>Identity resolution\<close>

lemma distinct_map_filter_one:
  assumes "distinct (map g xs)" "x \<in> set xs"
  shows "length (filter (\<lambda>u. g u = g x) xs) = 1"
  using assms
proof (induction xs)
  case Nil
  then show ?case by simp
next
  case (Cons a xs)
  show ?case
  proof (cases "a = x")
    case True
    have "filter (\<lambda>u. g u = g x) xs = []"
    proof -
      have "g x \<notin> g ` set xs" using Cons.prems(1) True by simp
      then have "\<And>u. u \<in> set xs \<Longrightarrow> g u \<noteq> g x" by (metis imageI)
      then show ?thesis by (simp add: filter_empty_conv)
    qed
    with True show ?thesis by simp
  next
    case False
    with Cons.prems have "x \<in> set xs" "g a \<noteq> g x" by auto
    with Cons show ?thesis by simp
  qed
qed

lemma distinct_email_row:
  assumes "distinct (map email us)" "find (\<lambda>u. email u = em) us = Some row"
  shows "map (\<lambda>u. if email u = em then f u else u) us = map (\<lambda>u. if u = row then f row else u) us"
proof -
  from find_Some_D[OF assms(2)] have r: "row \<in> set us" "email row = em" by simp_all
  have "\<And>u. u \<in> set us \<Longrightarrow> (email u = em) = (u = row)"
    using assms(1) r by (auto simp: distinct_map inj_on_def)
  then show ?thesis by (simp cong: map_cong)
qed

lemma upsert_user_distinct:
  assumes "distinct (map email (users d))" "upsert_user inet_in d e em ip ua rc = Inr (uid, d')"
  shows "distinct (map email (users d')) \<and> length (filter (\<lambda>u. email u = em) (users d')) = 1"
proof (cases "find (\<lambda>u. email u = em) (users d)")
  case None
  then have n: "em \<notin> set (map email (users d))"
    by (auto dest: find_None_D)
  then have "filter (\<lambda>u. email u = em) (users d) = []"
    by (auto simp: filter_empty_conv)
  with None assms n show ?thesis
    by (simp add: upsert_user_def split: if_splits) auto
next
  case (Some row)
  let ?f = "\<lambda>u. if email u = em then u\<lparr>ip_address := Some ip, user_agent := Some ua, updated_at := db_now e\<rparr> else u"
  have us: "users d' = map ?f (users d)"
    using assms(2) upsert_user_accepts[OF assms(2)]
    by (auto simp: upsert_user_existing[where inet_in = inet_in and ip = ip, OF Some])
  have em: "map email (users d') = map email (users d)"
    unfolding us by (induction "users d") auto
  have "length (filter (\<lambda>u. email u = em) (users d')) = length (filter (\<lambda>x. x = em) (map email (users d')))"
    by (simp add: filter_map comp_def)
  also have "\<dots> = length (filter (\<lambda>u. email u = email row) (users d))"
    using find_Some_D[OF Some] by (simp add: em filter_map comp_def)
  also have "\<dots> = 1"
    using distinct_map_filter_one[OF assms(1)] find_Some_D[OF Some] by blast
  finally show ?thesis using assms(1) em by simp
qed

lemma upsert_user_again:
  assumes "upsert_user inet_in d e em ip ua rc = Inr (uid, d')"
  shows "if inet_in ip2
         then \<exists>d''. upsert_user inet_in d' e2 em ip2 ua2 rc2 = Inr (uid, d'')
                  \<and> length (users d'') = length (users d')
         else upsert_user inet_in d' e2 em ip2 ua2 rc2 = Inl (StorageFailure inet_input_syntax)"
proof (cases "inet_in ip2")
  case True
  from upsert_user_has_row[OF assms] obtain row where
    r: "find (\<lambda>u. email u = em) (users d') = Some row" "u_id row = uid" by blast
  from upsert_user_accepts[OF assms] have l: "length em \<le> 255" by simp
  show ?thesis
    using True by (simp add: upsert_user_existing[where inet_in = inet_in and ip = ip2, OF r(1) True l] r(2))
next
  case False
  then show ?thesis by (simp add: upsert_user_def)
qed

text \<open>
  Claim C7, as stated, fails in two places. The refresh of an existing account also sets its
  \<open>updated_at\<close>; and for an origin that is no network address (a proxy chain in the
  forwarding header) the statement is rejected, so that no account id is returned.
\<close>

theorem identity_refresh_counterexample:
  "users ana_db =
     [\<lparr>u_id = 1, email = ''admin@angelessinalas.com'', password_hash = Some ''x'',
       balance = 0, referral_code = ''ADMIN001'', referred_by = None,
       total_referrals = 0, ip_address = None, user_agent = None,
       email_verified = False, verification_token = None, created_at = 0,
       updated_at = 0, last_login = None\<rparr>,
      \<lparr>u_id = 2, email = ''ana@example.org'', password_hash = None,
       balance = 500, referral_code = ''REF000000'', referred_by = None, total_referrals = 0,
       ip_address = Some ''10.0.0.7'', user_agent = Some ''Mozilla'', email_verified = False,
       verification_token = None, created_at = 1700000000000, updated_at = 1700000000000,
       last_login = None\<rparr>]
   \<and> upsert_user ipv4_address ana_db env3 ''ana@example.org'' ''10.0.0.9'' ''Safari'' ''REF000001'' =
       Inr (2, ana_db\<lparr>users :=
          [\<lparr>u_id = 1, email = ''admin@angelessinalas.com'', password_hash = Some ''x'',
             balance = 0, referral_code = ''ADMIN001'', referred_by = None,
             total_referrals = 0, ip_address = None, user_agent = None,
             email_verified = False, verification_token = None, created_at = 0,
             updated_at = 0, last_login = None\<rparr>,
           \<lparr>u_id = 2, email = ''ana@example.org'', password_hash = None,
             balance = 500, referral_code = ''REF000000'', referred_by = None, total_referrals = 0,
             ip_address = Some ''10.0.0.9'', user_agent = Some ''Safari'', email_verified = False,
             verification_token = None, created_at = 1700000000000, updated_at = 1700000000001,
             last_login = None\<rparr>]\<rparr>)
   \<and> upsert_user ipv4_address ana_db env3 ''ana@example.org'' ''10.0.0.7, 10.0.0.8'' ''Safari''
         ''REF000001'' = Inl (StorageFailure inet_input_syntax)"
proof -
  have us: "users ana_db =
     [\<lparr>u_id = 1, email = ''admin@angelessinalas.com'', password_hash = Some ''x'',
       balance = 0, referral_code = ''ADMIN001'', referred_by = None,
       total_referrals = 0, ip_address = None, user_agent = None,
       email_verified = False, verification_token = None, created_at = 0,
       updated_at = 0, last_login = None\<rparr>,
      \<lparr>u_id = 2, email = ''ana@example.org'', password_hash = None,
       balance = 500, referral_code = ''REF000000'', referred_by = None, total_referrals = 0,
       ip_address = Some ''10.0.0.7'', user_agent = Some ''Mozilla'', email_verified = False,
       verification_token = None, created_at = 1700000000000, updated_at = 1700000000000,
       last_login = None\<rparr>]"
    by (simp add: ana_db_eq seed_db_def)
  have a: "upsert_user ipv4_address ana_db env3 ''ana@example.org'' ''10.0.0.7, 10.0.0.8'' ''Safari''
         ''REF000001'' = Inl (StorageFailure inet_input_syntax)"
    by (simp add: upsert_user_def ipv4_proxy_chain)
  show ?thesis
    using a by (simp add: us upsert_user_def ipv4_10_0_0_9 env3_def)
qed

text \<open>
  Claim C7, amended. Identity resolution is idempotent on the contact key. When an account
  with the supplied email exists and the origin is a network address, its id is returned and
  that row alone changes, in its \<open>ip_address\<close>, its \<open>user_agent\<close> and its \<open>updated_at\<close>;
  every other row and column and every other table is as before. When the origin is no network
  address the statement is rejected. Whenever the statement succeeds, emails stay unique,
  exactly one account carries the supplied email, and a further request with that email from a
  network address gets the same id and creates no account.
\<close>

theorem identity_resolution_idempotent:
  assumes "distinct (map email (users d))" and "length em \<le> 255"
  shows "(\<forall>row. find (\<lambda>u. email u = em) (users d) = Some row \<longrightarrow>
            upsert_user inet_in d e em ip ua rc =
              (if inet_in ip
               then Inr (u_id row,
                         d\<lparr>users := map (\<lambda>u. if u = row
                                               then row\<lparr>ip_address := Some ip, user_agent := Some ua,
                                                        updated_at := db_now e\<rparr>
                                               else u) (users d)\<rparr>)
               else Inl (StorageFailure inet_input_syntax)))
       \<and> (\<forall>uid d'. upsert_user inet_in d e em ip ua rc = Inr (uid, d') \<longrightarrow>
            distinct (map email (users d'))
            \<and> length (filter (\<lambda>u. email u = em) (users d')) = 1
            \<and> (if inet_in ip2
                then \<exists>d''. upsert_user inet_in d' e2 em ip2 ua2 rc2 = Inr (uid, d'')
                         \<and> length (users d'') = length (users d')
                else upsert_user inet_in d' e2 em ip2 ua2 rc2 = Inl (StorageFailure inet_input_syntax)))"
proof (intro conjI allI impI)
  fix row
  assume f: "find (\<lambda>u. email u = em) (users d) = Some row"
  show "upsert_user inet_in d e em ip ua rc =
              (if inet_in ip
               then Inr (u_id row,
                         d\<lparr>users := map (\<lambda>u. if u = row
                                               then row\<lparr>ip_address := Some ip, user_agent := Some ua,
                                                        updated_at := db_now e\<rparr>
                                               else u) (users d)\<rparr>)
               else Inl (StorageFailure inet_input_syntax))"
  proof (cases "inet_in ip")
    case True
    show ?thesis
      unfolding upsert_user_existing[where inet_in = inet_in and ip = ip, OF f True assms(2)]
      using distinct_email_row[OF assms(1) f, of "\<lambda>u. u\<lparr>ip_address := Some ip, user_agent := Some ua, updated_at := db_now e\<rparr>"] True
      by simp
  next
    case False
    then show ?thesis by (simp add: upsert_user_def)
  qed
next
  fix uid d'
  assume u: "upsert_user inet_in d e em ip ua rc = Inr (uid, d')"
  from upsert_user_distinct[OF assms(1) u]
  show "distinct (map email (users d'))" "length (filter (\<lambda>u. email u = em) (users d')) = 1"
    by simp_all
  from upsert_user_again[OF u]
  show "if inet_in ip2
                then \<exists>d''. upsert_user inet_in d' e2 em ip2 ua2 rc2 = Inr (uid, d'')
                         \<and> length (users d'') = length (users d')
                else upsert_user inet_in d' e2 em ip2 ua2 rc2 = Inl (StorageFailure inet_input_syntax)" .
qed

theorem identity_resolution_idempotent_witness:
  "distinct (map email (users ana_db)) \<and> length ''ana@example.org'' \<le> 255
   \<and> upsert_user ipv4_address ana_db env3 ''ana@example.org'' ''10.0.0.9'' ''Safari'' ''REF000001'' =
       Inr (2, ana_db\<lparr>users :=
          [\<lparr>u_id = 1, email = ''admin@angelessinalas.com'', password_hash = Some ''x'',
                 balance = 0, referral_code = ''ADMIN001'', referred_by = None,
                 total_referrals = 0, ip_address = None, user_agent = None,
                 email_verified = False, verification_token = None, created_at = 0,
                 updated_at = 0, last_login = None\<rparr>,
           \<lparr>u_id = 2, email = ''ana@example.org'', password_hash = None,
             balance = 500, referral_code = ''REF000000'', referred_by = None, total_referrals = 0,
             ip_address = Some ''10.0.0.9'', user_agent = Some ''Safari'', email_verified = False,
             verification_token = None, created_at = 1700000000000, updated_at = 1700000000001,
             last_login = None\<rparr>]\<rparr>)"
proof -
  have dist: "distinct (map email (users ana_db))"
    by (simp add: ana_db_eq seed_db_def)
  have len: "length ''ana@example.org'' \<le> 255" by simp
  have row: "find (\<lambda>u. email u = ''ana@example.org'') (users ana_db) =
     Some \<lparr>u_id = 2, email = ''ana@example.org'', password_hash = None,
       balance = 500, referral_code = ''REF000000'', referred_by = None, total_referrals = 0,
       ip_address = Some ''10.0.0.7'', user_agent = Some ''Mozilla'', email_verified = False,
       verification_token = None, created_at = 1700000000000, updated_at = 1700000000000,
       last_login = None\<rparr>"
    by (simp add: ana_db_eq seed_db_def)
  have us: "users ana_db = [\<lparr>u_id = 1, email = ''admin@angelessinalas.com'', password_hash = Some ''x'',
                 balance = 0, referral_code = ''ADMIN001'', referred_by = None,
                 total_referrals = 0, ip_address = None, user_agent = None,
                 email_verified = False, verification_token = None, created_at = 0,
                 updated_at = 0, last_login = None\<rparr>,
                 \<lparr>u_id = 2, email = ''ana@example.org'', password_hash = None,
       balance = 500, referral_code = ''REF000000'', referred_by = None, total_referrals = 0,
       ip_address = Some ''10.0.0.7'', user_agent = Some ''Mozilla'', email_verified = False,
       verification_token = None, created_at = 1700000000000, updated_at = 1700000000000,
       last_login = None\<rparr>]"
    by (simp add: ana_db_eq seed_db_def)
  note identity_resolution_idempotent[OF dist len, THEN conjunct1, rule_format, OF row,
           of ipv4_address env3 "''10.0.0.9''" "''Safari''" "''REF000001''"]
  then show ?thesis
    using dist by (simp add: us env3_def ipv4_10_0_0_9)
qed



section \<open>Referral bonus\<close>









section \<open>Synthesized contact keys\<close>

lemma digit_char_inj: "k < 10 \<Longrightarrow> j < 10 \<Longrightarrow> digit_char k = digit_char j \<Longrightarrow> k = j"
proof -
  assume a: "k < 10" "j < 10" "digit_char k = digit_char j"
  have d: "distinct ''0123456789''" by simp
  have l: "length ''0123456789'' = 10" by simp
  from a show "k = j"
    unfolding digit_char_def using nth_eq_iff_index_eq[OF d, of k j] l by simp
qed

lemma digit_char_not_underscore: "k < 10 \<Longrightarrow> digit_char k \<noteq> CHR ''_''"
proof -
  assume a: "k < 10"
  have "length ''0123456789'' = 10" by simp
  with a have "''0123456789'' ! k \<in> set ''0123456789''"
    by (metis nth_mem)
  then show ?thesis unfolding digit_char_def by auto
qed

lemma toString_nonempty: "toString n \<noteq> []"
  by (subst toString.simps) simp

lemma toString_no_underscore: "CHR ''_'' \<notin> set (toString n)"
proof (induction n rule: toString.induct)
  case (1 n)
  show ?case
  proof (cases "n < 10")
    case True
    then show ?thesis
      using digit_char_not_underscore[of n] by (simp add: toString_small)
  next
    case False
    then show ?thesis
      using 1 digit_char_not_underscore[of "n mod 10"] by (simp add: toString_big)
  qed
qed

lemma toString_inj: "toString n = toString m \<Longrightarrow> n = m"
proof (induction n arbitrary: m rule: toString.induct)
  case (1 n)
  show ?case
  proof (cases "n < 10")
    case n: True
    show ?thesis
    proof (cases "m < 10")
      case True
      with n 1(2) show ?thesis
        by (simp add: toString_small digit_char_inj)
    next
      case False
      with n 1(2) toString_nonempty[of "m div 10"] show ?thesis
        by (simp add: toString_small toString_big)
    qed
  next
    case n: False
    show ?thesis
    proof (cases "m < 10")
      case True
      with n 1(2) toString_nonempty[of "n div 10"] show ?thesis
        by (simp add: toString_small toString_big)
    next
      case False
      with n 1(2) have e: "toString (n div 10) = toString (m div 10)"
        "digit_char (n mod 10) = digit_char (m mod 10)"
        by (simp_all add: toString_big)
      from 1(1)[OF n e(1)] have "n div 10 = m div 10" .
      moreover from e(2) have "n mod 10 = m mod 10"
        by (simp add: digit_char_inj)
      ultimately show ?thesis
        by (metis div_mult_mod_eq)
    qed
  qed
qed

lemma split_at_underscore:
  assumes "xs @ CHR ''_'' # r1 = ys @ CHR ''_'' # r2"
      and "CHR ''_'' \<notin> set xs" "CHR ''_'' \<notin> set ys"
  shows "xs = ys"
proof -
  have tw: "takeWhile (\<lambda>c. c \<noteq> CHR ''_'') (zs @ CHR ''_'' # r) = zs"
    if "CHR ''_'' \<notin> set zs" for zs r
  proof -
    from that have "\<And>x. x \<in> set zs \<Longrightarrow> x \<noteq> CHR ''_''" by auto
    then show ?thesis by (simp add: takeWhile_append2)
  qed
  have "takeWhile (\<lambda>c. c \<noteq> CHR ''_'') (xs @ CHR ''_'' # r1) = xs"
    by (rule tw[OF assms(2)])
  moreover have "takeWhile (\<lambda>c. c \<noteq> CHR ''_'') (ys @ CHR ''_'' # r2) = ys"
    by (rule tw[OF assms(3)])
  ultimately show ?thesis using assms(1) by simp
qed

lemma tempEmail_inj_clock:
  assumes "tempEmail None t1 ip1 = tempEmail None t2 ip2"
  shows "t1 = t2"
proof -
  from assms have "toString t1 @ CHR ''_'' # (remove_dots ip1 @ ''@temp.com'')
                 = toString t2 @ CHR ''_'' # (remove_dots ip2 @ ''@temp.com'')"
    by (simp add: tempEmail_def)
  from split_at_underscore[OF this toString_no_underscore toString_no_underscore]
  show ?thesis by (rule toString_inj)
qed

lemma referralCode_env2: "referralCode 1700001000000 = ''REF000000''"
  by (simp add: referralCode_def slice_last_def toString_small toString_big digit_char_def)

lemma tempEmail_env1: "tempEmail None 1700000000000 ''10.0.0.7'' = ''temp_1700000000000_10007@temp.com''"
  by (simp add: tempEmail_def remove_dots_def toString_small toString_big digit_char_def)

lemma tempEmail_env2: "tempEmail None 1700001000000 ''10.0.0.7'' = ''temp_1700001000000_10007@temp.com''"
  by (simp add: tempEmail_def remove_dots_def toString_small toString_big digit_char_def)

lemma referralCode_env3: "referralCode 1700000000001 = ''REF000001''"
  by (simp add: referralCode_def slice_last_def toString_small toString_big digit_char_def)

lemma tempEmail_env3: "tempEmail None 1700000000001 ''10.0.0.7'' = ''temp_1700000000001_10007@temp.com''"
  by (simp add: tempEmail_def remove_dots_def toString_small toString_big digit_char_def)

lemma anon_submit:
  "submit_route ipv4_address seed_db env1 1 [(''q1'', Scalar ''No'')] None ''10.0.0.7'' ''Mozilla'' =
    (Inr \<lparr>ok_userId = 2, responsesCount = 1\<rparr>, anon_db)"
proof -
  have "fst (submit_route ipv4_address seed_db env1 1 [(''q1'', Scalar ''No'')] None ''10.0.0.7'' ''Mozilla'')
          = Inr \<lparr>ok_userId = 2, responsesCount = 1\<rparr>"
    by (simp add: seed_db_def env1_def submit_route_def upsert_user_def tempEmail_env1
      referralCode_env1 reward_block_def Let_def submit_balance_query_def sql_sum_def coalesce_def
      ipv4_10_0_0_7)
  then show ?thesis
    by (simp add: anon_db_def prod_eq_iff)
qed

lemma anon_db_eq:
  "anon_db =
     seed_db\<lparr>users := users seed_db @ [\<lparr>u_id = 2, email = ''temp_1700000000000_10007@temp.com'',
       password_hash = None,
       balance = 500, referral_code = ''REF000000'', referred_by = None, total_referrals = 0,
       ip_address = Some ''10.0.0.7'', user_agent = Some ''Mozilla'', email_verified = False,
       verification_token = None, created_at = 1700000000000, updated_at = 1700000000000,
       last_login = None\<rparr>],
     user_survey_responses := [\<lparr>r_user_id = 2, r_survey_id = 1, r_question_id = 1,
       answer_text = Some ''No'', answer_options = None\<rparr>],
     user_completed_surveys := [\<lparr>c_user_id = 2, c_survey_id = 1, reward_paid = True\<rparr>],
     transactions := [\<lparr>t_user_id = 2, t_type = survey_reward, t_amount = 500,
       reference_id = Some ''main_survey'', t_status = completed, t_paypal_email = None\<rparr>],
     activity_logs := [\<lparr>a_user_id = 2, activity_type = ''survey_completed'',
       a_ip_address = Some ''10.0.0.7'', a_user_agent = Some ''Mozilla'',
       metadata = SurveyMeta 1 [(''q1'', Scalar ''No'')]\<rparr>]\<rparr>"
  by (simp add: anon_db_def seed_db_def env1_def submit_route_def upsert_user_def tempEmail_env1
      referralCode_env1 reward_block_def Let_def submit_balance_query_def sql_sum_def coalesce_def
      ipv4_10_0_0_7)

lemma anon_users:
  "users anon_db =
     [\<lparr>u_id = 1, email = ''admin@angelessinalas.com'', password_hash = Some ''x'',
       balance = 0, referral_code = ''ADMIN001'', referred_by = None,
       total_referrals = 0, ip_address = None, user_agent = None,
       email_verified = False, verification_token = None, created_at = 0,
       updated_at = 0, last_login = None\<rparr>,
      \<lparr>u_id = 2, email = ''temp_1700000000000_10007@temp.com'',
       password_hash = None,
       balance = 500, referral_code = ''REF000000'', referred_by = None, total_referrals = 0,
       ip_address = Some ''10.0.0.7'', user_agent = Some ''Mozilla'', email_verified = False,
       verification_token = None, created_at = 1700000000000, updated_at = 1700000000000,
       last_login = None\<rparr>]"
  by (simp add: anon_db_eq seed_db_def)

text \<open>
  Claim C10. Every submission without a contact key creates a new account, and two such
  submissions at distinct timestamps are each rewarded. On the seed database two submissions
  without a contact key, 1000 s apart, synthesize different contact keys but the same referral
  code (REF and the last six digits of the timestamp): the second insert violates the UNIQUE
  constraint of \<open>referral_code\<close>, the submission is rolled back, no account is created and
  nothing is rewarded.
\<close>

theorem anonymous_referral_code_collision:
  "clock env1 \<noteq> clock env2
   \<and> tempEmail None (clock env1) ''10.0.0.7'' \<noteq> tempEmail None (clock env2) ''10.0.0.7''
   \<and> referralCode (clock_code env1) = referralCode (clock_code env2)
   \<and> submit_route ipv4_address seed_db env1 1 [(''q1'', Scalar ''No'')] None ''10.0.0.7'' ''Mozilla''
       = (Inr \<lparr>ok_userId = 2, responsesCount = 1\<rparr>, anon_db)
   \<and> submit_route ipv4_address anon_db env2 1 [(''q1'', Scalar ''No'')] None ''10.0.0.7'' ''Mozilla''
       = (Inl (StorageFailure users_referral_code_key), anon_db)"
proof -
  have c: "clock env1 \<noteq> clock env2" by (simp add: env1_def env2_def)
  have k: "tempEmail None (clock env1) ''10.0.0.7'' \<noteq> tempEmail None (clock env2) ''10.0.0.7''"
    using c tempEmail_inj_clock by blast
  have r: "referralCode (clock_code env1) = referralCode (clock_code env2)"
    by (simp add: env1_def env2_def referralCode_env1 referralCode_env2)
  have "submit_route ipv4_address anon_db env2 1 [(''q1'', Scalar ''No'')] None ''10.0.0.7'' ''Mozilla''
       = (Inl (StorageFailure users_referral_code_key), anon_db)"
    by (simp add: submit_route_def upsert_user_def anon_users env2_def tempEmail_env2 referralCode_env2
        ipv4_10_0_0_7)
  with c k r anon_submit show ?thesis by simp
qed



section \<open>Completion guard\<close>

lemma tempEmail_given: "em \<noteq> [] \<Longrightarrow> tempEmail (Some em) now userIp = em"
  by (simp add: tempEmail_def)

lemma upsert_user_frame:
  assumes "upsert_user inet_in d e em ip ua rc = Inr (uid, d1)"
  shows "surveys d1 = surveys d \<and> survey_questions d1 = survey_questions d
       \<and> user_survey_responses d1 = user_survey_responses d
       \<and> user_completed_surveys d1 = user_completed_surveys d
       \<and> transactions d1 = transactions d \<and> referrals d1 = referrals d
       \<and> withdrawal_requests d1 = withdrawal_requests d
       \<and> activity_logs d1 = activity_logs d \<and> config d1 = config d"
  using assms by (auto simp: upsert_user_def split: option.splits if_splits)

lemma upsert_user_new:
  assumes "inet_in ip" "length em \<le> 255"
      and "\<not> list_ex (\<lambda>u. email u = em) (users d)"
      and "\<not> list_ex (\<lambda>u. referral_code u = rc) (users d)"
      and "\<not> list_ex (\<lambda>u. u_id u = new_uuid e) (users d)"
  shows "upsert_user inet_in d e em ip ua rc =
           Inr (new_uuid e,
                d\<lparr>users := users d @
                   [\<lparr>u_id = new_uuid e, email = em, password_hash = None, balance = 0,
                     referral_code = rc, referred_by = None, total_referrals = 0,
                     ip_address = Some ip, user_agent = Some ua, email_verified = False,
                     verification_token = None, created_at = db_now e,
                     updated_at = db_now e, last_login = None\<rparr>]\<rparr>)"
proof -
  have "find (\<lambda>u. email u = em) (users d) = None"
    using assms(3) by (auto simp: find_None_iff list_ex_iff)
  with assms(1,2,4,5) show ?thesis by (simp add: upsert_user_def)
qed

lemma save_responses_succeeds:
  assumes "distinct (map q_id qs)"
      and "distinct (map fst entries)"
      and "\<And>r. r \<in> set rs \<Longrightarrow> r_user_id r = userId \<Longrightarrow> r_survey_id r = surveyId \<Longrightarrow>
             \<exists>q\<in>set qs. q_id q = r_question_id r \<and> question_key q \<notin> set (map fst entries)"
  shows "\<exists>res. save_responses userId surveyId qs entries (rs, saved) = Inr res"
  using assms
proof (induction userId surveyId qs entries "(rs, saved)" arbitrary: rs saved rule: save_responses.induct)
  case (1 userId surveyId qs acc)
  then show ?case by simp
next
  case (2 userId surveyId qs questionKey ans rest rs savedResponses)
  have dq: "distinct (map q_id qs)" by (rule 2(3))
  from 2(4) have dr: "distinct (map fst rest)" and kn: "questionKey \<notin> set (map fst rest)"
    by simp_all
  show ?case
  proof (cases "find (\<lambda>q. q_survey_id q = surveyId \<and> question_key q = questionKey) qs")
    case None
    have "\<exists>res. save_responses userId surveyId qs rest (rs, savedResponses) = Inr res"
    proof (rule 2(1)[OF None dq dr])
      fix r assume "r \<in> set rs" "r_user_id r = userId" "r_survey_id r = surveyId"
      from 2(5)[OF this] show "\<exists>q\<in>set qs. q_id q = r_question_id r \<and> question_key q \<notin> set (map fst rest)"
        by auto
    qed
    with None show ?thesis by simp
  next
    case (Some q)
    from find_Some_D[OF Some] have q: "q \<in> set qs" "question_key q = questionKey" by simp_all
    have nc: "\<not> list_ex (\<lambda>r. r_user_id r = userId \<and> r_survey_id r = surveyId
                          \<and> r_question_id r = q_id q) rs"
    proof
      assume "list_ex (\<lambda>r. r_user_id r = userId \<and> r_survey_id r = surveyId
                          \<and> r_question_id r = q_id q) rs"
      then obtain r where r: "r \<in> set rs" "r_user_id r = userId" "r_survey_id r = surveyId"
          "r_question_id r = q_id q"
        by (auto simp: list_ex_iff)
      from 2(5)[OF r(1,2,3)] obtain q' where
        q': "q' \<in> set qs" "q_id q' = r_question_id r" "question_key q' \<notin> set (map fst ((questionKey, ans) # rest))"
        by blast
      from q'(1,2) r(4) q(1) dq have "q' = q"
        by (auto simp: distinct_map inj_on_def)
      with q'(3) q(2) show False by simp
    qed
    let ?row = "\<lparr>r_user_id = userId, r_survey_id = surveyId, r_question_id = q_id q,
                          answer_text = (case ans of Scalar s \<Rightarrow> Some s | Options os \<Rightarrow> None),
                          answer_options = (case ans of Scalar s \<Rightarrow> None | Options os \<Rightarrow> Some os)\<rparr>"
    have "\<exists>res. save_responses userId surveyId qs rest
                 (rs @ [?row], savedResponses @ [(questionKey, ans)]) = Inr res"
    proof (rule 2(2)[OF Some nc dq dr])
      fix r assume r: "r \<in> set (rs @ [?row])" "r_user_id r = userId" "r_survey_id r = surveyId"
      show "\<exists>q\<in>set qs. q_id q = r_question_id r \<and> question_key q \<notin> set (map fst rest)"
      proof (cases "r \<in> set rs")
        case True
        from 2(5)[OF True r(2,3)] show ?thesis by auto
      next
        case False
        with r(1) have "r = ?row" by simp
        with q kn show ?thesis by (intro bexI[of _ q]) simp_all
      qed
    qed
    with Some nc show ?thesis by simp
  qed
qed

lemma submit_balance_query_reward:
  "submit_balance_query (txs @ [\<lparr>t_user_id = uid, t_type = survey_reward, t_amount = a,
       reference_id = r, t_status = completed, t_paypal_email = p\<rparr>]) uid
     = submit_balance_query txs uid + a"
  by (simp add: submit_balance_query_def coalesce_sql_sum)

lemma reward_block_ok:
  assumes "\<not> list_ex (\<lambda>c. c_user_id c = userId \<and> c_survey_id c = surveyId) (user_completed_surveys d)"
      and "- 10000000000 < submit_balance_query (transactions d) userId + reward_amount s"
      and "submit_balance_query (transactions d) userId + reward_amount s < 10000000000"
      and "inet_in userIp"
  shows "\<exists>d'. reward_block inet_in d userId surveyId s userIp userAgent saved = Inr d'"
  using assms by (simp add: reward_block_def Let_def submit_balance_query_reward)

lemma upsert_user_admitted:
  assumes "inet_in ip" "length em \<le> 255"
      and "case find (\<lambda>u. email u = em) (users d) of
             Some row \<Rightarrow> True
           | None \<Rightarrow> \<not> list_ex (\<lambda>u. referral_code u = rc) (users d)
                    \<and> \<not> list_ex (\<lambda>u. u_id u = new_uuid e) (users d)"
  shows "\<exists>d1. upsert_user inet_in d e em ip ua rc = Inr (resolved_account d e em, d1)"
proof (cases "find (\<lambda>u. email u = em) (users d)")
  case None
  then have "\<not> list_ex (\<lambda>u. email u = em) (users d)"
    by (auto simp: list_ex_iff dest: find_None_D)
  with None assms show ?thesis
    by (simp add: resolved_account_def upsert_user_new)
next
  case (Some row)
  with assms show ?thesis
    by (simp add: resolved_account_def upsert_user_existing[where inet_in = inet_in and ip = ip, OF Some])
qed

lemma submit_route_admitted:
  assumes pk: "distinct (map q_id (survey_questions d))"
      and sv: "find (\<lambda>s. s_id s = surveyId) (surveys d) = Some s"
      and adm: "admissible inet_in d e surveyId responses userEmail userIp"
  shows "\<exists>n d1. submit_route inet_in d e surveyId responses userEmail userIp userAgent =
           (Inr \<lparr>ok_userId = resolved_account d e (tempEmail userEmail (clock e) userIp),
               responsesCount = n\<rparr>, d1)"
proof -
  let ?em = "tempEmail userEmail (clock e) userIp"
  let ?uid = "resolved_account d e ?em"
  from adm have inet: "inet_in userIp" and len: "length ?em \<le> 255"
    and acc: "case find (\<lambda>u. email u = ?em) (users d) of
             Some row \<Rightarrow> True
           | None \<Rightarrow> \<not> list_ex (\<lambda>u. referral_code u = referralCode (clock_code e)) (users d)
                    \<and> \<not> list_ex (\<lambda>u. u_id u = new_uuid e) (users d)"
    and nc: "\<not> list_ex (\<lambda>c. c_user_id c = ?uid \<and> c_survey_id c = surveyId) (user_completed_surveys d)"
    and nr: "\<not> list_ex (\<lambda>r. r_user_id r = ?uid \<and> r_survey_id r = surveyId) (user_survey_responses d)"
    and keys: "distinct (map fst responses)"
    and rng: "- 10000000000 < submit_balance_query (transactions d) ?uid + reward_amount s"
             "submit_balance_query (transactions d) ?uid + reward_amount s < 10000000000"
    using sv by (simp_all add: admissible_def Let_def)
  from upsert_user_admitted[where inet_in = inet_in and ip = userIp, OF inet len acc] obtain d1 where
    up: "upsert_user inet_in d e ?em userIp userAgent (referralCode (clock_code e)) = Inr (?uid, d1)"
    by blast
  note fr = upsert_user_frame[OF up]
  have guard: "\<not> list_ex (\<lambda>c. c_user_id c = ?uid \<and> c_survey_id c = surveyId) (user_completed_surveys d1)"
    using nc fr by simp
  have "\<exists>res. save_responses ?uid surveyId (survey_questions d) responses (user_survey_responses d, []) = Inr res"
  proof (rule save_responses_succeeds[OF pk keys])
    fix r assume "r \<in> set (user_survey_responses d)" "r_user_id r = ?uid" "r_survey_id r = surveyId"
    with nr have False by (auto simp: list_ex_iff)
    then show "\<exists>q\<in>set (survey_questions d). q_id q = r_question_id r \<and> question_key q \<notin> set (map fst responses)" ..
  qed
  then obtain rsp saved where
    save: "save_responses ?uid surveyId (survey_questions d1) responses (user_survey_responses d1, []) = Inr (rsp, saved)"
    using fr by force
  have sur: "find (\<lambda>s. s_id s = surveyId) (surveys d1) = Some s"
    using sv fr by simp
  have "\<exists>d'. reward_block inet_in (d1\<lparr>user_survey_responses := rsp\<rparr>) ?uid surveyId s userIp userAgent saved = Inr d'"
    by (rule reward_block_ok) (use guard rng inet fr in simp_all)
  then obtain d' where
    rb: "reward_block inet_in (d1\<lparr>user_survey_responses := rsp\<rparr>) ?uid surveyId s userIp userAgent saved = Inr d'"
    by blast
  have "submit_route inet_in d e surveyId responses userEmail userIp userAgent =
           (Inr \<lparr>ok_userId = ?uid, responsesCount = length saved\<rparr>, d')"
    using guard save sur rb by (simp add: submit_route_def up Let_def)
  then show ?thesis by blast
qed

lemma submit_route_rewarded:
  assumes "submit_route inet_in d e surveyId responses userEmail userIp userAgent = (Inr ok, d')"
      and "find (\<lambda>s. s_id s = surveyId) (surveys d) = Some s"
  shows "user_completed_surveys d' = user_completed_surveys d @
             [\<lparr>c_user_id = ok_userId ok, c_survey_id = surveyId, reward_paid = True\<rparr>]
       \<and> \<not> list_ex (\<lambda>c. c_user_id c = ok_userId ok \<and> c_survey_id c = surveyId) (user_completed_surveys d)
       \<and> transactions d' = transactions d @
             [\<lparr>t_user_id = ok_userId ok, t_type = survey_reward, t_amount = reward_amount s,
               reference_id = Some (survey_key s), t_status = completed, t_paypal_email = None\<rparr>]
       \<and> (\<exists>row. find (\<lambda>u. email u = tempEmail userEmail (clock e) userIp) (users d') = Some row
                \<and> u_id row = ok_userId ok)"
proof -
  let ?em = "tempEmail userEmail (clock e) userIp"
  from submit_route_Inr[OF assms(1)] obtain d1 rs saved where
    up: "upsert_user inet_in d e ?em userIp userAgent (referralCode (clock_code e)) = Inr (ok_userId ok, d1)"
    and rb: "(case find (\<lambda>s. s_id s = surveyId) (surveys d1) of
               None \<Rightarrow> d' = d1\<lparr>user_survey_responses := rs\<rparr>
             | Some s \<Rightarrow> reward_block inet_in (d1\<lparr>user_survey_responses := rs\<rparr>) (ok_userId ok) surveyId s
                            userIp userAgent saved = Inr d')"
    by blast
  note fr = upsert_user_frame[OF up]
  from rb assms(2) fr have rb': "reward_block inet_in (d1\<lparr>user_survey_responses := rs\<rparr>) (ok_userId ok) surveyId s
                            userIp userAgent saved = Inr d'"
    by simp
  note R = reward_block_Inr[OF rb']
  let ?f = "\<lambda>u. if u_id u = ok_userId ok
                then u\<lparr>balance := submit_balance_query (transactions d') (ok_userId ok)\<rparr> else u"
  from upsert_user_has_row[OF up] obtain row where
    r: "find (\<lambda>u. email u = ?em) (users d1) = Some row" "u_id row = ok_userId ok" by blast
  have "find (\<lambda>u. email u = ?em) (map ?f (users d1)) = map_option ?f (find (\<lambda>u. email u = ?em) (users d1))"
    by (rule find_map_preserved) simp
  with r R have "find (\<lambda>u. email u = ?em) (users d') = Some (?f row)" by simp
  moreover have "u_id (?f row) = ok_userId ok" using r(2) by simp
  ultimately have "\<exists>row. find (\<lambda>u. email u = ?em) (users d') = Some row \<and> u_id row = ok_userId ok"
    by blast
  with R fr show ?thesis by simp
qed

lemma submit_route_later:
  assumes "find (\<lambda>u. email u = em) (users d) = Some row"
      and "list_ex (\<lambda>c. c_user_id c = u_id row \<and> c_survey_id c = surveyId) (user_completed_surveys d)"
      and "em \<noteq> []" "length em \<le> 255"
  shows "submit_route inet_in d e surveyId responses (Some em) userIp userAgent =
           (if inet_in userIp then Inl AlreadyCompleted else Inl (StorageFailure inet_input_syntax), d)"
proof (cases "inet_in userIp")
  case True
  with assms(2) show ?thesis
    by (simp add: submit_route_def tempEmail_given[OF assms(3)]
          upsert_user_existing[where inet_in = inet_in and ip = userIp, OF assms(1) True assms(4)])
next
  case False
  then show ?thesis
    by (simp add: submit_route_def upsert_user_def)
qed

lemma submit_all_Cons:
  "submit_all inet_in d surveyId userEmail (c # cs) =
     (fst (submit_route inet_in d (call_env c) surveyId (call_responses c) userEmail (call_userIp c)
             (call_userAgent c))
        # fst (submit_all inet_in (snd (submit_route inet_in d (call_env c) surveyId (call_responses c)
                 userEmail (call_userIp c) (call_userAgent c))) surveyId userEmail cs),
      snd (submit_all inet_in (snd (submit_route inet_in d (call_env c) surveyId (call_responses c)
                 userEmail (call_userIp c) (call_userAgent c))) surveyId userEmail cs))"
  by (simp split: prod.splits)

lemma submit_all_later:
  assumes "find (\<lambda>u. email u = em) (users d) = Some row"
      and "list_ex (\<lambda>c. c_user_id c = u_id row \<and> c_survey_id c = surveyId) (user_completed_surveys d)"
      and "em \<noteq> []" "length em \<le> 255"
  shows "submit_all inet_in d surveyId (Some em) cs =
           (map (\<lambda>c. if inet_in (call_userIp c) then Inl AlreadyCompleted
                      else Inl (StorageFailure inet_input_syntax)) cs, d)"
proof (induction cs)
  case Nil
  then show ?case by simp
next
  case (Cons c cs)
  then show ?case
    by (simp add: submit_all_Cons submit_route_later[OF assms] del: submit_all.simps(2))
qed

lemma submit_route_completions:
  "user_completed_surveys (snd (submit_route inet_in d e surveyId responses userEmail userIp userAgent))
     = user_completed_surveys d
   \<or> (\<exists>uid. \<not> list_ex (\<lambda>c. c_user_id c = uid \<and> c_survey_id c = surveyId) (user_completed_surveys d)
          \<and> user_completed_surveys (snd (submit_route inet_in d e surveyId responses userEmail userIp userAgent))
              = user_completed_surveys d @ [\<lparr>c_user_id = uid, c_survey_id = surveyId, reward_paid = True\<rparr>])"
proof (cases "fst (submit_route inet_in d e surveyId responses userEmail userIp userAgent)")
  case (Inl err)
  from submit_route_error_rollback[OF this] show ?thesis by simp
next
  case (Inr ok)
  let ?d' = "snd (submit_route inet_in d e surveyId responses userEmail userIp userAgent)"
  from Inr have run: "submit_route inet_in d e surveyId responses userEmail userIp userAgent = (Inr ok, ?d')"
    by (simp add: prod_eq_iff)
  from submit_route_Inr[OF run] obtain d1 rs saved where
    up: "upsert_user inet_in d e (tempEmail userEmail (clock e) userIp) userIp userAgent
           (referralCode (clock_code e)) = Inr (ok_userId ok, d1)"
    and rb: "(case find (\<lambda>s. s_id s = surveyId) (surveys d1) of
               None \<Rightarrow> ?d' = d1\<lparr>user_survey_responses := rs\<rparr>
             | Some s \<Rightarrow> reward_block inet_in (d1\<lparr>user_survey_responses := rs\<rparr>) (ok_userId ok) surveyId s
                            userIp userAgent saved = Inr ?d')"
    by blast
  note fr = upsert_user_frame[OF up]
  show ?thesis
  proof (cases "find (\<lambda>s. s_id s = surveyId) (surveys d1)")
    case None
    with rb have "?d' = d1\<lparr>user_survey_responses := rs\<rparr>" by simp
    then have "user_completed_surveys ?d' = user_completed_surveys d1" by simp
    with fr show ?thesis by simp
  next
    case (Some s)
    with rb have "reward_block inet_in (d1\<lparr>user_survey_responses := rs\<rparr>) (ok_userId ok) surveyId s
                            userIp userAgent saved = Inr ?d'" by simp
    from reward_block_Inr[OF this] fr show ?thesis
      by (intro disjI2 exI[of _ "ok_userId ok"]) simp
  qed
qed

lemma submit_route_unique_pairs:
  assumes "distinct (map (\<lambda>c. (c_user_id c, c_survey_id c)) (user_completed_surveys d))"
  shows "distinct (map (\<lambda>c. (c_user_id c, c_survey_id c))
           (user_completed_surveys (snd (submit_route inet_in d e surveyId responses userEmail userIp userAgent))))"
  using submit_route_completions[of inet_in d e surveyId responses userEmail userIp userAgent] assms
  by (auto simp: list_ex_iff)

lemma submit_all_unique_pairs:
  assumes "distinct (map (\<lambda>c. (c_user_id c, c_survey_id c)) (user_completed_surveys d))"
  shows "distinct (map (\<lambda>c. (c_user_id c, c_survey_id c))
           (user_completed_surveys (snd (submit_all inet_in d surveyId userEmail cs))))"
  using assms
proof (induction cs arbitrary: d)
  case Nil
  then show ?case by simp
next
  case (Cons c cs)
  from Cons.IH[OF submit_route_unique_pairs[OF Cons.prems]] show ?case
    by (simp add: submit_all_Cons del: submit_all.simps(2))
qed


lemma ana_users:
  "users ana_db =
     [\<lparr>u_id = 1, email = ''admin@angelessinalas.com'', password_hash = Some ''x'',
       balance = 0, referral_code = ''ADMIN001'', referred_by = None,
       total_referrals = 0, ip_address = None, user_agent = None,
       email_verified = False, verification_token = None, created_at = 0,
       updated_at = 0, last_login = None\<rparr>,
      \<lparr>u_id = 2, email = ''ana@example.org'', password_hash = None,
       balance = 500, referral_code = ''REF000000'', referred_by = None, total_referrals = 0,
       ip_address = Some ''10.0.0.7'', user_agent = Some ''Mozilla'', email_verified = False,
       verification_token = None, created_at = 1700000000000, updated_at = 1700000000000,
       last_login = None\<rparr>]"
  by (simp add: ana_db_eq seed_db_def)

lemma ana_survey:
  "find (\<lambda>s. s_id s = 1) (surveys ana_db)
     = Some \<lparr>s_id = 1, survey_key = ''main_survey'', reward_amount = 500, is_active = True\<rparr>"
  by (simp add: ana_db_eq seed_db_def)

text \<open>
  Claim C4, as stated, fails in two places. For a new account whose referral code is taken the
  first submission is rolled back, and it is a later one that succeeds; and after a successful
  submission a later one from an origin that is no network address fails at the upsert, with
  a storage error and not with \<open>AlreadyCompleted\<close>.
\<close>

theorem completion_guard_counterexample:
  "fst (submit_all ipv4_address ana_db 1 (Some ''bea@example.org'')
          [\<lparr>call_env = env2, call_responses = [(''q1'', Scalar ''No'')], call_userIp = ''10.0.0.9'',
             call_userAgent = ''Safari''\<rparr>,
           \<lparr>call_env = env3, call_responses = [(''q1'', Scalar ''No'')], call_userIp = ''10.0.0.9'',
             call_userAgent = ''Safari''\<rparr>,
           \<lparr>call_env = env2, call_responses = [(''q1'', Scalar ''No'')], call_userIp = ''10.0.0.9'',
             call_userAgent = ''Safari''\<rparr>])
     = [Inl (StorageFailure users_referral_code_key),
        Inr \<lparr>ok_userId = 3, responsesCount = 1\<rparr>,
        Inl AlreadyCompleted]
   \<and> fst (submit_all ipv4_address seed_db 1 (Some ''ana@example.org'')
          [\<lparr>call_env = env1, call_responses = [(''q1'', Scalar ''No'')], call_userIp = ''10.0.0.7'',
             call_userAgent = ''Mozilla''\<rparr>,
           \<lparr>call_env = env3, call_responses = [(''q1'', Scalar ''No'')],
             call_userIp = ''10.0.0.7, 10.0.0.8'', call_userAgent = ''Mozilla''\<rparr>])
     = [Inr \<lparr>ok_userId = 2, responsesCount = 1\<rparr>,
        Inl (StorageFailure inet_input_syntax)]"
proof -
  let ?rs = "[(''q1'', Scalar ''No'')]"
  have bea: "''bea@example.org'' \<noteq> []" "length ''bea@example.org'' \<le> 255" by simp_all
  have r1: "submit_route ipv4_address ana_db env2 1 ?rs (Some ''bea@example.org'') ''10.0.0.9'' ''Safari''
              = (Inl (StorageFailure users_referral_code_key), ana_db)"
    by (simp add: submit_route_def upsert_user_def ana_users env2_def tempEmail_def referralCode_env2
          ipv4_10_0_0_9)
  define d2 where
    "d2 = snd (submit_route ipv4_address ana_db env3 1 ?rs (Some ''bea@example.org'') ''10.0.0.9'' ''Safari'')"
  have "fst (submit_route ipv4_address ana_db env3 1 ?rs (Some ''bea@example.org'') ''10.0.0.9'' ''Safari'')
          = Inr \<lparr>ok_userId = 3, responsesCount = 1\<rparr>"
    by (simp add: ana_db_eq seed_db_def env3_def submit_route_def upsert_user_def tempEmail_def
          referralCode_env3 reward_block_def Let_def submit_balance_query_def sql_sum_def coalesce_def
          ipv4_10_0_0_9)
  then have r2: "submit_route ipv4_address ana_db env3 1 ?rs (Some ''bea@example.org'') ''10.0.0.9'' ''Safari''
          = (Inr \<lparr>ok_userId = 3, responsesCount = 1\<rparr>, d2)"
    by (simp add: prod_eq_iff d2_def)
  from submit_route_rewarded[OF r2 ana_survey] obtain row where
    row: "find (\<lambda>u. email u = ''bea@example.org'') (users d2) = Some row" "u_id row = 3"
    and cmp: "list_ex (\<lambda>c. c_user_id c = 3 \<and> c_survey_id c = 1) (user_completed_surveys d2)"
    by (auto simp: tempEmail_def)
  have r3: "submit_route ipv4_address d2 env2 1 ?rs (Some ''bea@example.org'') ''10.0.0.9'' ''Safari''
              = (Inl AlreadyCompleted, d2)"
    using submit_route_later[where inet_in = ipv4_address and userIp = "''10.0.0.9''", OF row(1) _ bea,
            of 1 env2 ?rs "''Safari''"] cmp row(2)
    by (simp add: ipv4_10_0_0_9)
  have a: "fst (submit_all ipv4_address ana_db 1 (Some ''bea@example.org'')
          [\<lparr>call_env = env2, call_responses = ?rs, call_userIp = ''10.0.0.9'',
             call_userAgent = ''Safari''\<rparr>,
           \<lparr>call_env = env3, call_responses = ?rs, call_userIp = ''10.0.0.9'',
             call_userAgent = ''Safari''\<rparr>,
           \<lparr>call_env = env2, call_responses = ?rs, call_userIp = ''10.0.0.9'',
             call_userAgent = ''Safari''\<rparr>])
     = [Inl (StorageFailure users_referral_code_key),
        Inr \<lparr>ok_userId = 3, responsesCount = 1\<rparr>,
        Inl AlreadyCompleted]"
    using r1 r2 r3 by (simp add: submit_all_Cons del: submit_all.simps(2))
  have r4: "submit_route ipv4_address ana_db env3 1 ?rs (Some ''ana@example.org'') ''10.0.0.7, 10.0.0.8''
              ''Mozilla'' = (Inl (StorageFailure inet_input_syntax), ana_db)"
    by (simp add: submit_route_def upsert_user_def ipv4_proxy_chain)
  have b: "fst (submit_all ipv4_address seed_db 1 (Some ''ana@example.org'')
          [\<lparr>call_env = env1, call_responses = ?rs, call_userIp = ''10.0.0.7'',
             call_userAgent = ''Mozilla''\<rparr>,
           \<lparr>call_env = env3, call_responses = ?rs,
             call_userIp = ''10.0.0.7, 10.0.0.8'', call_userAgent = ''Mozilla''\<rparr>])
     = [Inr \<lparr>ok_userId = 2, responsesCount = 1\<rparr>,
        Inl (StorageFailure inet_input_syntax)]"
    using ana_submit r4 by (simp add: submit_all_Cons del: submit_all.simps(2))
  from a b show ?thesis by simp
qed

text \<open>
  Claim C4, amended. No run of submissions ever leaves two completion records for one account
  and survey, and a submission that fails leaves the database as it was. For an account (a
  contact key) and a survey of the catalogue, a submission that the database admits succeeds
  and appends exactly one completion record and exactly one reward credit; every later
  submission of that account for that survey fails and changes nothing, with
  \<open>AlreadyCompleted\<close> when its origin is a network address and with a storage error when it is
  not.
\<close>

theorem one_reward_per_account_and_survey:
  assumes pk: "distinct (map q_id (survey_questions d))"
      and uq: "distinct (map (\<lambda>c. (c_user_id c, c_survey_id c)) (user_completed_surveys d))"
      and sv: "find (\<lambda>s. s_id s = surveyId) (surveys d) = Some s"
      and em: "em \<noteq> []"
      and adm: "admissible inet_in d (call_env c) surveyId (call_responses c) (Some em) (call_userIp c)"
  shows "distinct (map (\<lambda>c. (c_user_id c, c_survey_id c))
           (user_completed_surveys (snd (submit_all inet_in d surveyId2 userEmail2 cs2))))
       \<and> (\<forall>err. fst (submit_route inet_in d e2 surveyId2 rs2 userEmail2 ip2 ua2) = Inl err \<longrightarrow>
                snd (submit_route inet_in d e2 surveyId2 rs2 userEmail2 ip2 ua2) = d)
       \<and> (\<exists>n. submit_all inet_in d surveyId (Some em) (c # cs) =
             (Inr \<lparr>ok_userId = resolved_account d (call_env c) em, responsesCount = n\<rparr>
                # map (\<lambda>c. if inet_in (call_userIp c) then Inl AlreadyCompleted
                            else Inl (StorageFailure inet_input_syntax)) cs,
              snd (submit_route inet_in d (call_env c) surveyId (call_responses c) (Some em)
                     (call_userIp c) (call_userAgent c))))
       \<and> user_completed_surveys (snd (submit_all inet_in d surveyId (Some em) (c # cs)))
            = user_completed_surveys d @
                [\<lparr>c_user_id = resolved_account d (call_env c) em, c_survey_id = surveyId,
                  reward_paid = True\<rparr>]
       \<and> length (filter (\<lambda>x. c_user_id x = resolved_account d (call_env c) em \<and> c_survey_id x = surveyId)
            (user_completed_surveys (snd (submit_all inet_in d surveyId (Some em) (c # cs))))) = 1
       \<and> transactions (snd (submit_all inet_in d surveyId (Some em) (c # cs)))
            = transactions d @
                [\<lparr>t_user_id = resolved_account d (call_env c) em, t_type = survey_reward,
                  t_amount = reward_amount s, reference_id = Some (survey_key s),
                  t_status = completed, t_paypal_email = None\<rparr>]"
proof -
  let ?uid = "resolved_account d (call_env c) em"
  define d1 where
    "d1 = snd (submit_route inet_in d (call_env c) surveyId (call_responses c) (Some em)
                 (call_userIp c) (call_userAgent c))"
  have te: "tempEmail (Some em) (clock (call_env c)) (call_userIp c) = em"
    by (rule tempEmail_given[OF em])
  from submit_route_admitted[OF pk sv adm, of "call_userAgent c"] obtain n where
    run: "submit_route inet_in d (call_env c) surveyId (call_responses c) (Some em)
            (call_userIp c) (call_userAgent c) = (Inr \<lparr>ok_userId = ?uid, responsesCount = n\<rparr>, d1)"
    unfolding te d1_def by force
  from adm have len: "length em \<le> 255"
    by (simp add: admissible_def Let_def te)
  note R = submit_route_rewarded[OF run sv]
  from R obtain row where
    r: "find (\<lambda>u. email u = em) (users d1) = Some row" "u_id row = ?uid"
    by (auto simp: te)
  have cmpl: "list_ex (\<lambda>c. c_user_id c = u_id row \<and> c_survey_id c = surveyId) (user_completed_surveys d1)"
    using R r(2) by simp
  have rest: "submit_all inet_in d1 surveyId (Some em) cs =
           (map (\<lambda>c. if inet_in (call_userIp c) then Inl AlreadyCompleted
                      else Inl (StorageFailure inet_input_syntax)) cs, d1)"
    by (rule submit_all_later[OF r(1) cmpl em len])
  have all: "submit_all inet_in d surveyId (Some em) (c # cs) =
             (Inr \<lparr>ok_userId = ?uid, responsesCount = n\<rparr>
                # map (\<lambda>c. if inet_in (call_userIp c) then Inl AlreadyCompleted
                            else Inl (StorageFailure inet_input_syntax)) cs, d1)"
    using run rest by (simp add: submit_all_Cons del: submit_all.simps(2))
  have fin: "snd (submit_all inet_in d surveyId (Some em) (c # cs)) = d1"
    by (simp only: all snd_conv)
  have "filter (\<lambda>x. c_user_id x = ?uid \<and> c_survey_id x = surveyId) (user_completed_surveys d) = []"
    using R by (simp add: filter_empty_conv list_ex_iff)
  then have one: "length (filter (\<lambda>x. c_user_id x = ?uid \<and> c_survey_id x = surveyId)
            (user_completed_surveys d1)) = 1"
    using R by simp
  have A: "distinct (map (\<lambda>c. (c_user_id c, c_survey_id c))
           (user_completed_surveys (snd (submit_all inet_in d surveyId2 userEmail2 cs2))))"
    by (rule submit_all_unique_pairs[OF uq])
  have B: "\<forall>err. fst (submit_route inet_in d e2 surveyId2 rs2 userEmail2 ip2 ua2) = Inl err \<longrightarrow>
                snd (submit_route inet_in d e2 surveyId2 rs2 userEmail2 ip2 ua2) = d"
    using submit_route_error_rollback by blast
  have C: "\<exists>n. submit_all inet_in d surveyId (Some em) (c # cs) =
             (Inr \<lparr>ok_userId = ?uid, responsesCount = n\<rparr>
                # map (\<lambda>c. if inet_in (call_userIp c) then Inl AlreadyCompleted
                            else Inl (StorageFailure inet_input_syntax)) cs,
              snd (submit_route inet_in d (call_env c) surveyId (call_responses c) (Some em)
                     (call_userIp c) (call_userAgent c)))"
    using all unfolding d1_def by blast
  have D: "user_completed_surveys (snd (submit_all inet_in d surveyId (Some em) (c # cs)))
            = user_completed_surveys d @
                [\<lparr>c_user_id = ?uid, c_survey_id = surveyId, reward_paid = True\<rparr>]"
    unfolding fin using R by simp
  have E: "length (filter (\<lambda>x. c_user_id x = ?uid \<and> c_survey_id x = surveyId)
            (user_completed_surveys (snd (submit_all inet_in d surveyId (Some em) (c # cs))))) = 1"
    unfolding fin by (rule one)
  have F: "transactions (snd (submit_all inet_in d surveyId (Some em) (c # cs)))
            = transactions d @
                [\<lparr>t_user_id = ?uid, t_type = survey_reward,
                  t_amount = reward_amount s, reference_id = Some (survey_key s),
                  t_status = completed, t_paypal_email = None\<rparr>]"
    unfolding fin using R by simp
  from A B C D E F show ?thesis by (intro conjI)
qed

theorem one_reward_per_account_and_survey_witness:
  "admissible ipv4_address seed_db env1 1 [(''q1'', Scalar ''No'')] (Some ''ana@example.org'') ''10.0.0.7''
   \<and> (\<exists>n. submit_all ipv4_address seed_db 1 (Some ''ana@example.org'')
          [\<lparr>call_env = env1, call_responses = [(''q1'', Scalar ''No'')], call_userIp = ''10.0.0.7'',
             call_userAgent = ''Mozilla''\<rparr>,
           \<lparr>call_env = env3, call_responses = [(''q2'', Scalar ''Importante'')], call_userIp = ''10.0.0.9'',
             call_userAgent = ''Safari''\<rparr>,
           \<lparr>call_env = env2, call_responses = [(''q1'', Scalar ''No'')],
             call_userIp = ''10.0.0.7, 10.0.0.8'', call_userAgent = ''Mozilla''\<rparr>]
        = ([Inr \<lparr>ok_userId = 2, responsesCount = n\<rparr>, Inl AlreadyCompleted,
            Inl (StorageFailure inet_input_syntax)], ana_db))
   \<and> length (filter (\<lambda>x. c_user_id x = 2 \<and> c_survey_id x = 1) (user_completed_surveys ana_db)) = 1
   \<and> transactions ana_db = [\<lparr>t_user_id = 2, t_type = survey_reward, t_amount = 500,
              reference_id = Some ''main_survey'', t_status = completed, t_paypal_email = None\<rparr>]"
proof -
  let ?c = "\<lparr>call_env = env1, call_responses = [(''q1'', Scalar ''No'')], call_userIp = ''10.0.0.7'',
             call_userAgent = ''Mozilla''\<rparr>"
  let ?cs = "[\<lparr>call_env = env3, call_responses = [(''q2'', Scalar ''Importante'')], call_userIp = ''10.0.0.9'',
             call_userAgent = ''Safari''\<rparr>,
           \<lparr>call_env = env2, call_responses = [(''q1'', Scalar ''No'')],
             call_userIp = ''10.0.0.7, 10.0.0.8'', call_userAgent = ''Mozilla''\<rparr>]"
  have pk: "distinct (map q_id (survey_questions seed_db))"
    by (simp add: seed_db_def)
  have uq: "distinct (map (\<lambda>c. (c_user_id c, c_survey_id c)) (user_completed_surveys seed_db))"
    by (simp add: seed_db_def)
  have sv: "find (\<lambda>s. s_id s = 1) (surveys seed_db)
             = Some \<lparr>s_id = 1, survey_key = ''main_survey'', reward_amount = 500, is_active = True\<rparr>"
    by (simp add: seed_db_def)
  have em: "''ana@example.org'' \<noteq> []" by simp
  have adm: "admissible ipv4_address seed_db env1 1 [(''q1'', Scalar ''No'')] (Some ''ana@example.org'')
               ''10.0.0.7''"
    by (simp add: admissible_def Let_def tempEmail_def resolved_account_def seed_db_def env1_def
          referralCode_env1 ipv4_10_0_0_7 submit_balance_query_def sql_sum_def coalesce_def)
  have adm': "admissible ipv4_address seed_db (call_env ?c) 1 (call_responses ?c) (Some ''ana@example.org'')
               (call_userIp ?c)"
    using adm by simp
  have ra: "resolved_account seed_db env1 ''ana@example.org'' = 2"
    by (simp add: resolved_account_def seed_db_def env1_def)
  have d1: "snd (submit_route ipv4_address seed_db env1 1 [(''q1'', Scalar ''No'')] (Some ''ana@example.org'')
                   ''10.0.0.7'' ''Mozilla'') = ana_db"
    by (simp add: ana_db_def)
  have t0: "transactions seed_db = []" "user_completed_surveys seed_db = []"
    by (simp_all add: seed_db_def)
  note w = one_reward_per_account_and_survey[OF pk uq sv em adm', where cs = ?cs]
  from w[THEN conjunct2, THEN conjunct2, THEN conjunct1] obtain n where
    eq: "submit_all ipv4_address seed_db 1 (Some ''ana@example.org'') (?c # ?cs)
           = ([Inr \<lparr>ok_userId = 2, responsesCount = n\<rparr>, Inl AlreadyCompleted,
               Inl (StorageFailure inet_input_syntax)], ana_db)"
    by (auto simp: ra ipv4_10_0_0_9 ipv4_proxy_chain ana_db_def simp del: submit_all.simps)
  have fin: "snd (submit_all ipv4_address seed_db 1 (Some ''ana@example.org'') (?c # ?cs)) = ana_db"
    by (simp only: eq snd_conv)
  from w[THEN conjunct2, THEN conjunct2, THEN conjunct2, THEN conjunct2, THEN conjunct1]
  have E: "length (filter (\<lambda>x. c_user_id x = 2 \<and> c_survey_id x = 1) (user_completed_surveys ana_db)) = 1"
    unfolding fin by (simp add: ra)
  from eq have "\<exists>n. submit_all ipv4_address seed_db 1 (Some ''ana@example.org'') (?c # ?cs)
           = ([Inr \<lparr>ok_userId = 2, responsesCount = n\<rparr>, Inl AlreadyCompleted,
               Inl (StorageFailure inet_input_syntax)], ana_db)"
    by blast
  with adm E ana_transactions show ?thesis by (intro conjI)
qed


end
